theory Spec2Isabelle
  imports Complex_Main
begin

section \<open>Data model\<close>

text \<open>
  A row of the \<open>servers\<close> table (\<open>Database.createTables\<close>). The columns
  \<open>private_key_path\<close>, \<open>password\<close> and \<open>port\<close> are nullable, so they are options;
  \<open>None\<close> is SQL NULL.
\<close>

record server =
  server_id :: int
  server_name :: string
  server_ip :: string
  server_username :: string
  private_key_path :: "string option"
  password :: "string option"
  port :: "int option"
  group_name :: string
  server_status :: string
  last_check :: "nat option"

text \<open>The \<open>server: { id, name, ip }\<close> object every execution result carries.\<close>

record server_ref =
  ref_id :: int
  ref_name :: string
  ref_ip :: string

definition server_ref_of :: "server \<Rightarrow> server_ref" where
  "server_ref_of server =
     \<lparr>ref_id = server_id server, ref_name = server_name server, ref_ip = server_ip server\<rparr>"

text \<open>
  The object \<open>executeCommand\<close> returns. A field the object literal does not set (the
  \<open>.catch\<close> fallback of \<open>executeBulkCommand\<close> sets only \<open>success\<close>, \<open>error\<close> and
  \<open>server\<close>) is \<open>None\<close>; \<open>code\<close> is also \<open>None\<close> when the remote process reports no exit code.
\<close>

record execution_result =
  success :: bool
  stdout :: "string option"
  stderr :: "string option"
  code :: "int option"
  executionTime :: "nat option"
  res_server :: server_ref
  error :: "string option"

text \<open>
  The \<open>options\<close> object of a task (\<open>timeout\<close>, \<open>maxConcurrent\<close>, \<open>cwd\<close>, all optional).
  \<open>maxConcurrent\<close> is a natural number: the schema of the route admits the integers from 1
  to 20 only, and the predefined tasks set no \<open>maxConcurrent\<close>.
\<close>

record options =
  timeout :: "nat option"
  maxConcurrent :: "nat option"
  cwd :: "string option"

definition no_options :: options where
  "no_options = \<lparr>timeout = None, maxConcurrent = None, cwd = None\<rparr>"

text \<open>The configuration object handed to \<open>ssh.connect\<close>.\<close>

record connection_config =
  cfg_host :: string
  cfg_username :: string
  cfg_port :: int
  cfg_readyTimeout :: nat
  cfg_tryKeyboard :: bool
  cfg_privateKey :: "string option"
  cfg_password :: "string option"

text \<open>What \<open>ssh.execCommand\<close> resolves to, and the options it is called with.\<close>

record exec_output =
  out_stdout :: string
  out_stderr :: string
  out_code :: "int option"

record exec_options =
  exec_cwd :: string
  exec_timeout :: "nat option"
  exec_maxConcurrent :: "nat option"

text \<open>A JSON document, as \<open>JSON.parse\<close> produces it and \<open>JSON.stringify\<close> consumes it.\<close>

datatype json =
  JNull
  | JBool bool
  | JNum rat
  | JStr string
  | JArr "json list"
  | JObj "(string \<times> json) list"

text \<open>
  Everything the program reads from outside itself: the file system, the SSH library,
  the clocks, the JSON built-ins of the runtime, and which statements the database
  rejects. An error is the \<open>message\<close> of the thrown \<open>Error\<close>.
  \<^item> \<open>ssh_connect cfg\<close> is \<open>Some msg\<close> when \<open>ssh.connect(cfg)\<close> rejects;
  \<^item> \<open>ssh_execCommand cfg command opts\<close> is \<open>Inl msg\<close> when \<open>ssh.execCommand\<close> rejects;
  \<^item> \<open>exec_millis server command\<close> is the difference of the two \<open>Date.now()\<close> reads of one
    \<open>executeCommand\<close> call;
  \<^item> \<open>db_fault n\<close> is \<open>Some msg\<close> when the \<open>n\<close>-th statement sent to the database fails;
  \<^item> \<open>now n\<close> is the time read (\<open>CURRENT_TIMESTAMP\<close>, \<open>Date.now()\<close>) once \<open>n\<close> statements
    have been sent;
  \<^item> \<open>sql_integer text\<close> is the id a TEXT parameter is equal to in \<open>WHERE id = ?\<close>: the
    INTEGER column \<open>id\<close> makes the database convert a text that is an integer literal to
    that integer before it compares; \<open>None\<close> when the text is equal to no id.
\<close>

record env =
  fs_existsSync :: "string \<Rightarrow> bool"
  fs_readFileSync :: "string \<Rightarrow> string + string"
  ssh_connect :: "connection_config \<Rightarrow> string option"
  ssh_execCommand :: "connection_config \<Rightarrow> string \<Rightarrow> exec_options \<Rightarrow> string + exec_output"
  exec_millis :: "server \<Rightarrow> string \<Rightarrow> nat"
  db_fault :: "nat \<Rightarrow> string option"
  now :: "nat \<Rightarrow> nat"
  JSON_stringify :: "json \<Rightarrow> string"
  JSON_parse :: "string \<Rightarrow> string + json"
  sql_integer :: "string \<Rightarrow> nat option"

section \<open>SSHManager\<close>

text \<open>What one call does to the SSH library, in order.\<close>

datatype ssh_action =
  Connect connection_config
  | ExecCommand string exec_options
  | Dispose

text \<open>JavaScript truthiness of a nullable string, and \<open>a || b\<close> on a nullable number.\<close>

definition truthy :: "string option \<Rightarrow> bool" where
  "truthy v = (case v of None \<Rightarrow> False | Some s \<Rightarrow> s \<noteq> [])"

definition or_default :: "int option \<Rightarrow> int \<Rightarrow> int" where
  "or_default v d = (case v of None \<Rightarrow> d | Some n \<Rightarrow> if n = 0 then d else n)"

text \<open>
  \<open>SSHManager.createConnection\<close>: \<open>Inl msg\<close> when it throws, \<open>Inr cfg\<close> for the session
  opened with \<open>cfg\<close>; the second component lists the calls made to the SSH library.
\<close>

definition createConnection :: "env \<Rightarrow> server \<Rightarrow> (string + connection_config) \<times> ssh_action list" where
  "createConnection e server =
     (let connectionConfig =
            \<lparr>cfg_host = server_ip server,
             cfg_username = server_username server,
             cfg_port = or_default (port server) 22,
             cfg_readyTimeout = 10000,
             cfg_tryKeyboard = True,
             cfg_privateKey = None,
             cfg_password = None\<rparr>;
          connect = (\<lambda>cfg. case ssh_connect e cfg of
                        Some msg \<Rightarrow> (Inl msg, [Connect cfg])
                      | None \<Rightarrow> (Inr cfg, [Connect cfg]))
      in if truthy (private_key_path server) \<and> fs_existsSync e (the (private_key_path server)) then
           (case fs_readFileSync e (the (private_key_path server)) of
              Inl msg \<Rightarrow> (Inl msg, [])
            | Inr key \<Rightarrow> connect (connectionConfig\<lparr>cfg_privateKey := Some key\<rparr>))
         else if truthy (password server) then
           connect (connectionConfig\<lparr>cfg_password := password server\<rparr>)
         else
           (Inl (''No authentication method available for server '' @ server_name server), []))"

text \<open>
  The options object \<open>{ cwd: options.cwd || '/home/' + server.username, ...options }\<close>: the
  spread writes \<open>options.cwd\<close> over the default whenever the key is present.
\<close>

definition exec_options_of :: "server \<Rightarrow> options \<Rightarrow> exec_options" where
  "exec_options_of server opts =
     \<lparr>exec_cwd = (case cwd opts of Some c \<Rightarrow> c | None \<Rightarrow> ''/home/'' @ server_username server),
      exec_timeout = timeout opts,
      exec_maxConcurrent = maxConcurrent opts\<rparr>"

text \<open>
  \<open>SSHManager.executeCommand\<close>. The \<open>try\<close> block is \<open>attempt\<close>: its value is \<open>Inl msg\<close> when
  \<open>createConnection\<close> or \<open>execCommand\<close> throws. The \<open>catch\<close> block turns \<open>Inl msg\<close> into the
  failure object, and the \<open>finally\<close> block disposes of the session when one was opened
  (\<open>ssh.dispose()\<close> itself is taken not to throw). The result is \<open>Inl msg\<close> if the call
  itself throws.
\<close>

definition executeCommand ::
  "env \<Rightarrow> server \<Rightarrow> string \<Rightarrow> options \<Rightarrow> (string + execution_result) \<times> ssh_action list" where
  "executeCommand e server command opts =
     (let executionTime = exec_millis e server command;
          (attempt, ssh, actions) =
            (case createConnection e server of
               (Inl msg, acts) \<Rightarrow> (Inl msg, None, acts)
             | (Inr session, acts) \<Rightarrow>
                 (case ssh_execCommand e session command (exec_options_of server opts) of
                    Inl msg \<Rightarrow>
                      (Inl msg, Some session,
                       acts @ [ExecCommand command (exec_options_of server opts)])
                  | Inr result \<Rightarrow>
                      (Inr \<lparr>success = (out_code result = Some 0),
                            stdout = Some (out_stdout result),
                            stderr = Some (out_stderr result),
                            code = out_code result,
                            executionTime = Some executionTime,
                            res_server = server_ref_of server,
                            error = None\<rparr>,
                       Some session,
                       acts @ [ExecCommand command (exec_options_of server opts)])));
          returned =
            (case attempt of
               Inr r \<Rightarrow> Inr r
             | Inl msg \<Rightarrow>
                 Inr \<lparr>success = False,
                      stdout = Some '''',
                      stderr = Some msg,
                      code = Some (- 1),
                      executionTime = Some executionTime,
                      res_server = server_ref_of server,
                      error = Some msg\<rparr>)
      in (returned, if ssh \<noteq> None then actions @ [Dispose] else actions))"

text \<open>\<open>options.maxConcurrent || 5\<close>: an absent or zero \<open>maxConcurrent\<close> gives 5.\<close>

definition maxConcurrent_of :: "options \<Rightarrow> nat" where
  "maxConcurrent_of opts =
     (case maxConcurrent opts of None \<Rightarrow> 5 | Some k \<Rightarrow> if k = 0 then 5 else k)"

text \<open>
  One element of \<open>batchPromises\<close>: the \<open>executeCommand\<close> promise with its \<open>.catch\<close>
  handler, which turns a rejection into a failure object for that server.
\<close>

definition batchPromise :: "env \<Rightarrow> string \<Rightarrow> options \<Rightarrow> server \<Rightarrow> execution_result" where
  "batchPromise e command opts server =
     (case fst (executeCommand e server command opts) of
        Inr r \<Rightarrow> r
      | Inl msg \<Rightarrow>
          \<lparr>success = False,
           stdout = None,
           stderr = None,
           code = None,
           executionTime = None,
           res_server = server_ref_of server,
           error = Some msg\<rparr>)"

text \<open>
  The \<open>for\<close> loop of \<open>SSHManager.executeBulkCommand\<close>, from index \<open>i\<close> with the results
  gathered so far: \<open>servers.slice(i, i + maxConcurrent)\<close> is \<open>take maxConcurrent (drop i servers)\<close>,
  \<open>Promise.all\<close> keeps the order of the batch, and the pacing delay between batches has no
  effect on the value returned.
\<close>

function executeBulkCommand_loop ::
  "env \<Rightarrow> server list \<Rightarrow> string \<Rightarrow> options \<Rightarrow> nat \<Rightarrow> execution_result list \<Rightarrow> execution_result list" where
  "executeBulkCommand_loop e servers command opts i results =
     (if i < length servers then
        (let batch = take (maxConcurrent_of opts) (drop i servers);
             batchResults = map (batchPromise e command opts) batch
         in executeBulkCommand_loop e servers command opts
              (i + maxConcurrent_of opts) (results @ batchResults))
      else results)"
  by pat_completeness auto
termination
  by (relation "measure (\<lambda>(e, servers, command, opts, i, results). length servers - i)")
     (auto simp: maxConcurrent_of_def split: option.splits)

declare executeBulkCommand_loop.simps [simp del]

definition executeBulkCommand :: "env \<Rightarrow> server list \<Rightarrow> string \<Rightarrow> options \<Rightarrow> execution_result list" where
  "executeBulkCommand e servers command opts = executeBulkCommand_loop e servers command opts 0 []"

text \<open>The values \<open>batch\<close> takes in that loop from index \<open>i\<close> on, in the order of the iterations.\<close>

function executeBulkCommand_batches :: "server list \<Rightarrow> options \<Rightarrow> nat \<Rightarrow> server list list" where
  "executeBulkCommand_batches servers opts i =
     (if i < length servers then
        take (maxConcurrent_of opts) (drop i servers)
          # executeBulkCommand_batches servers opts (i + maxConcurrent_of opts)
      else [])"
  by pat_completeness auto
termination
  by (relation "measure (\<lambda>(servers, opts, i). length servers - i)")
     (auto simp: maxConcurrent_of_def split: option.splits)

declare executeBulkCommand_batches.simps [simp del]

section \<open>Database\<close>

text \<open>
  A row of the \<open>tasks\<close> table. \<open>server_ids\<close> and \<open>results\<close> hold JSON text; \<open>status\<close> is one of
  \<open>pending\<close>, \<open>running\<close>, \<open>completed\<close>, \<open>partial\<close>, \<open>failed\<close>.
\<close>

record task_row =
  task_id :: nat
  task_name :: string
  task_command :: string
  server_ids :: string
  task_status :: string
  task_results :: "string option"
  created_at :: nat
  completed_at :: "nat option"

record log_row =
  log_server_id :: int
  log_task_id :: nat
  log_command :: string
  log_output :: "string option"
  log_error :: "string option"
  log_execution_time :: "nat option"
  log_created_at :: nat

text \<open>The value \<open>TaskManager.runningTasks\<close> maps a task id to.\<close>

record running_info =
  run_status :: string
  startTime :: nat

text \<open>The \<open>{ serverId, serverName, success, executionTime }\<close> entries of \<open>taskCompleted\<close>.\<close>

record result_summary =
  sum_serverId :: int
  sum_serverName :: string
  sum_success :: bool
  sum_executionTime :: "nat option"

text \<open>What \<open>io.emit\<close> is called with: the event name with the fields of its payload.\<close>

datatype event =
  TaskStarted nat string string nat
  | TaskProgress nat int string bool "string option" "string option"
  | TaskCompleted nat string rat nat nat "result_summary list"
  | TaskFailed nat string

text \<open>
  The state the program works on: the three tables, the AUTOINCREMENT sequence of
  \<open>tasks\<close>, the number of statements sent to the database so far, the in-memory registry
  \<open>runningTasks\<close>, and the events emitted so far. \<open>observed\<close> records, for every \<open>await\<close>
  at which a call was suspended, the registry and the \<open>tasks\<close> table as they were then:
  JavaScript runs a call without interruption between two \<open>await\<close>s, so these are the
  states another request can see.
\<close>

record world =
  servers_table :: "int \<rightharpoonup> server"
  tasks_table :: "nat \<rightharpoonup> task_row"
  logs_table :: "log_row list"
  last_task_id :: nat
  statements :: nat
  runningTasks :: "nat \<rightharpoonup> running_info"
  emitted :: "event list"
  observed :: "((nat \<rightharpoonup> running_info) \<times> (nat \<rightharpoonup> task_row)) list"

text \<open>
  An asynchronous call: from a state to \<open>Inr\<close> the value it resolves to or \<open>Inl\<close> the
  message of the error it rejects with, and the state it leaves.
\<close>

type_synonym 'a promise = "world \<Rightarrow> (string + 'a) \<times> world"

definition resolve :: "'a \<Rightarrow> 'a promise" where
  "resolve a w = (Inr a, w)"

definition throw :: "string \<Rightarrow> 'a promise" where
  "throw msg w = (Inl msg, w)"

definition suspend :: "world \<Rightarrow> world" where
  "suspend w = w\<lparr>observed := observed w @ [(runningTasks w, tasks_table w)]\<rparr>"

text \<open>\<open>m\<close> followed by \<open>k\<close> on the value \<open>m\<close> resolves to; a rejection of \<open>m\<close> propagates.\<close>

definition and_then :: "'a promise \<Rightarrow> ('a \<Rightarrow> 'b promise) \<Rightarrow> 'b promise" where
  "and_then m k w =
     (case m w of
        (Inl msg, w') \<Rightarrow> (Inl msg, w')
      | (Inr a, w') \<Rightarrow> k a w')"

text \<open>\<open>const x = await m; k x\<close>: the caller is suspended while \<open>m\<close> runs.\<close>

definition await :: "'a promise \<Rightarrow> ('a \<Rightarrow> 'b promise) \<Rightarrow> 'b promise" where
  "await m k = and_then (\<lambda>w. m (suspend w)) k"

text \<open>A synchronous statement \<open>f\<close> followed by \<open>k\<close>.\<close>

definition seq :: "(world \<Rightarrow> world) \<Rightarrow> 'a promise \<Rightarrow> 'a promise" where
  "seq f k w = k (f w)"

text \<open>\<open>try { body } catch (error) { handler(error.message) }\<close>.\<close>

definition try_catch :: "'a promise \<Rightarrow> (string \<Rightarrow> 'a promise) \<Rightarrow> 'a promise" where
  "try_catch body handler w =
     (case body w of
        (Inl msg, w') \<Rightarrow> handler msg w'
      | (Inr a, w') \<Rightarrow> (Inr a, w'))"

text \<open>
  \<open>Database.run\<close>, \<open>Database.get\<close>: one statement sent to the database. It is counted, and
  either fails as \<open>db_fault\<close> says, changing nothing, or takes effect.
\<close>

definition db_statement :: "env \<Rightarrow> (world \<Rightarrow> 'a \<times> world) \<Rightarrow> 'a promise" where
  "db_statement e stmt w =
     (let w1 = w\<lparr>statements := Suc (statements w)\<rparr>
      in case db_fault e (statements w) of
           Some msg \<Rightarrow> (Inl msg, w1)
         | None \<Rightarrow> (case stmt w1 of (a, w2) \<Rightarrow> (Inr a, w2)))"

definition CURRENT_TIMESTAMP :: "env \<Rightarrow> world \<Rightarrow> nat" where
  "CURRENT_TIMESTAMP e w = now e (statements w)"

definition getServerById :: "env \<Rightarrow> int \<Rightarrow> server option promise" where
  "getServerById e row_id = db_statement e (\<lambda>w. (servers_table w row_id, w))"

definition updateServerStatus :: "env \<Rightarrow> int \<Rightarrow> string \<Rightarrow> unit promise" where
  "updateServerStatus e row_id status =
     db_statement e (\<lambda>w.
       (case servers_table w row_id of
          None \<Rightarrow> ((), w)
        | Some row \<Rightarrow>
            ((), w\<lparr>servers_table := (servers_table w)
                   (row_id \<mapsto> row\<lparr>server_status := status,
                               last_check := Some (CURRENT_TIMESTAMP e w)\<rparr>)\<rparr>)))"

text \<open>
  \<open>Database.createTask\<close>: the INSERT names only \<open>name\<close>, \<open>command\<close> and \<open>server_ids\<close>; the
  other columns take their defaults. It resolves to the new row's id.
\<close>

definition createTask :: "env \<Rightarrow> string \<Rightarrow> string \<Rightarrow> int list \<Rightarrow> nat promise" where
  "createTask e name command serverIds =
     db_statement e (\<lambda>w.
       (let row_id = Suc (last_task_id w)
        in (row_id, w\<lparr>last_task_id := row_id,
                  tasks_table := (tasks_table w)
                    (row_id \<mapsto> \<lparr>task_id = row_id,
                            task_name = name,
                            task_command = command,
                            server_ids = JSON_stringify e (JArr (map (\<lambda>i. JNum (of_int i)) serverIds)),
                            task_status = ''pending'',
                            task_results = None,
                            created_at = CURRENT_TIMESTAMP e w,
                            completed_at = None\<rparr>)\<rparr>)))"

text \<open>
  \<open>Database.updateTaskStatus(id, status, results = null)\<close>: the UPDATE sets \<open>status\<close>,
  \<open>results\<close> and \<open>completed_at\<close> of the row with that id, whatever the status is.
\<close>

definition updateTaskStatus :: "env \<Rightarrow> nat \<Rightarrow> string \<Rightarrow> json option \<Rightarrow> unit promise" where
  "updateTaskStatus e row_id status results =
     db_statement e (\<lambda>w.
       (case tasks_table w row_id of
          None \<Rightarrow> ((), w)
        | Some row \<Rightarrow>
            ((), w\<lparr>tasks_table := (tasks_table w)
                   (row_id \<mapsto> row\<lparr>task_status := status,
                               task_results := map_option (JSON_stringify e) results,
                               completed_at := Some (CURRENT_TIMESTAMP e w)\<rparr>)\<rparr>)))"

definition addLog ::
  "env \<Rightarrow> int \<Rightarrow> nat \<Rightarrow> string \<Rightarrow> string option \<Rightarrow> string option \<Rightarrow> nat option \<Rightarrow> unit promise" where
  "addLog e serverId taskId command output err execTime =
     db_statement e (\<lambda>w.
       ((), w\<lparr>logs_table := logs_table w @
                [\<lparr>log_server_id = serverId,
                  log_task_id = taskId,
                  log_command = command,
                  log_output = output,
                  log_error = err,
                  log_execution_time = execTime,
                  log_created_at = CURRENT_TIMESTAMP e w\<rparr>]\<rparr>))"

text \<open>
  A task id as a caller passes it: a number, or a string, as the route \<open>GET /:id\<close> passes
  \<open>req.params.id\<close>.
\<close>

datatype task_key =
  NumberKey nat
  | StringKey string

text \<open>The row \<open>SELECT * FROM tasks WHERE id = ?\<close> finds for a parameter.\<close>

definition select_task :: "env \<Rightarrow> world \<Rightarrow> task_key \<Rightarrow> task_row option" where
  "select_task e w taskId =
     (case taskId of
        NumberKey n \<Rightarrow> tasks_table w n
      | StringKey text \<Rightarrow>
          (case sql_integer e text of None \<Rightarrow> None | Some n \<Rightarrow> tasks_table w n))"

text \<open>\<open>this.db.get('SELECT * FROM tasks WHERE id = ?', [taskId])\<close>.\<close>

definition get_task :: "env \<Rightarrow> task_key \<Rightarrow> task_row option promise" where
  "get_task e taskId = db_statement e (\<lambda>w. (select_task e w taskId, w))"

section \<open>TaskManager\<close>

text \<open>The argument of \<open>executeTask\<close>; \<open>options\<close> may be absent.\<close>

record task_data =
  td_name :: string
  td_command :: string
  td_serverIds :: "int list"
  td_options :: "options option"

text \<open>
  The two objects \<open>executeTask\<close> returns: \<open>{ success: true, taskId, status, results,
  successRate }\<close> and \<open>{ success: false, taskId, error }\<close>.
\<close>

datatype task_return =
  TaskDone nat string "execution_result list" rat
  | TaskNotDone nat string

fun return_taskId :: "task_return \<Rightarrow> nat" where
  "return_taskId (TaskDone taskId status results successRate) = taskId"
| "return_taskId (TaskNotDone taskId msg) = taskId"

text \<open>
  The objects handed to \<open>JSON.stringify\<close>, as JSON documents. A property whose value is
  \<open>undefined\<close> is left out, as \<open>JSON.stringify\<close> does. An exit code that is \<open>None\<close> is
  \<open>undefined\<close> in the object of the \<open>.catch\<close> handler, the one object without \<open>stdout\<close>, and
  \<open>null\<close> in the objects \<open>executeCommand\<close> returns, where \<open>JSON.stringify\<close> keeps it.
\<close>

definition opt_field :: "string \<Rightarrow> ('a \<Rightarrow> json) \<Rightarrow> 'a option \<Rightarrow> (string \<times> json) list" where
  "opt_field key f v = (case v of None \<Rightarrow> [] | Some x \<Rightarrow> [(key, f x)])"

definition result_json :: "execution_result \<Rightarrow> json" where
  "result_json r =
     JObj ([(''success'', JBool (success r))]
           @ opt_field ''stdout'' JStr (stdout r)
           @ opt_field ''stderr'' JStr (stderr r)
           @ (case code r of
                Some c \<Rightarrow> [(''code'', JNum (of_int c))]
              | None \<Rightarrow> if stdout r = None then [] else [(''code'', JNull)])
           @ opt_field ''executionTime'' (\<lambda>t. JNum (of_nat t)) (executionTime r)
           @ [(''server'', JObj [(''id'', JNum (of_int (ref_id (res_server r)))),
                                (''name'', JStr (ref_name (res_server r))),
                                (''ip'', JStr (ref_ip (res_server r)))])]
           @ opt_field ''error'' JStr (error r))"

definition aggregate_json :: "execution_result list \<Rightarrow> rat \<Rightarrow> nat \<Rightarrow> nat \<Rightarrow> json" where
  "aggregate_json results successRate successCount totalCount =
     JObj [(''results'', JArr (map result_json results)),
           (''successRate'', JNum successRate),
           (''successCount'', JNum (of_nat successCount)),
           (''totalCount'', JNum (of_nat totalCount))]"

definition error_json :: "string \<Rightarrow> json" where
  "error_json msg = JObj [(''error'', JStr msg)]"

definition Date_now :: "env \<Rightarrow> world \<Rightarrow> nat" where
  "Date_now e w = now e (statements w)"

definition runningTasks_set :: "env \<Rightarrow> nat \<Rightarrow> world \<Rightarrow> world" where
  "runningTasks_set e taskId w =
     w\<lparr>runningTasks := (runningTasks w)
         (taskId \<mapsto> \<lparr>run_status = ''running'', startTime = Date_now e w\<rparr>)\<rparr>"

definition runningTasks_delete :: "nat \<Rightarrow> world \<Rightarrow> world" where
  "runningTasks_delete taskId w = w\<lparr>runningTasks := (runningTasks w)(taskId := None)\<rparr>"

definition emit :: "event \<Rightarrow> world \<Rightarrow> world" where
  "emit ev w = w\<lparr>emitted := emitted w @ [ev]\<rparr>"

text \<open>
  \<open>Promise.all(serverIds.map(id => this.db.getServerById(id)))\<close>: every query is sent, in
  the order of the list; the whole rejects with the first rejection.
\<close>

fun Promise_all_getServerById :: "env \<Rightarrow> int list \<Rightarrow> server option list promise" where
  "Promise_all_getServerById e [] w = (Inr [], w)"
| "Promise_all_getServerById e (i # ids) w =
     (case getServerById e i w of
        (first, w1) \<Rightarrow>
          (case Promise_all_getServerById e ids w1 of
             (rest, w2) \<Rightarrow>
               ((case first of
                   Inl msg \<Rightarrow> Inl msg
                 | Inr s \<Rightarrow> (case rest of Inl msg \<Rightarrow> Inl msg | Inr ss \<Rightarrow> Inr (s # ss))),
                w2)))"

definition progress_event :: "nat \<Rightarrow> execution_result \<Rightarrow> event" where
  "progress_event taskId result =
     TaskProgress taskId (ref_id (res_server result)) (ref_name (res_server result))
       (success result) (stdout result) (stderr result)"

text \<open>The loop \<open>for (const result of results)\<close> of \<open>executeTask\<close>.\<close>

fun log_results :: "env \<Rightarrow> nat \<Rightarrow> string \<Rightarrow> execution_result list \<Rightarrow> unit promise" where
  "log_results e taskId command [] = resolve ()"
| "log_results e taskId command (result # rest) =
     await (addLog e (ref_id (res_server result)) taskId command
              (stdout result) (stderr result) (executionTime result)) (\<lambda>_.
     await (updateServerStatus e (ref_id (res_server result))
              (if success result then ''online'' else ''error'')) (\<lambda>_.
     seq (emit (progress_event taskId result))
       (log_results e taskId command rest)))"

definition summary_of :: "execution_result \<Rightarrow> result_summary" where
  "summary_of r =
     \<lparr>sum_serverId = ref_id (res_server r),
      sum_serverName = ref_name (res_server r),
      sum_success = success r,
      sum_executionTime = executionTime r\<rparr>"

text \<open>
  \<open>(successCount / totalCount) * 100\<close>, as an exact fraction, where the source computes the
  double nearest to it (33.33333333333333 for one success in three). The double is 100
  exactly when the fraction is: the quotient of two counts is 1 only when they are equal,
  and otherwise lies below 1 by far more than the rounding of the product.
\<close>

definition successRate_of :: "execution_result list \<Rightarrow> rat" where
  "successRate_of results =
     of_nat (length (filter success results)) / of_nat (length results) * 100"

text \<open>
  The \<open>try\<close> block of \<open>executeTask\<close>, last part: from \<open>// Calculate success rate\<close> to
  its \<open>return\<close>.
\<close>

definition executeTask_finish :: "env \<Rightarrow> nat \<Rightarrow> execution_result list \<Rightarrow> task_return promise" where
  "executeTask_finish e taskId results =
     (let successCount = length (filter success results);
          totalCount = length results;
          successRate = successRate_of results;
          finalStatus = (if successRate = 100 then ''completed'' else ''partial'')
      in await (updateTaskStatus e taskId finalStatus
                  (Some (aggregate_json results successRate successCount totalCount))) (\<lambda>_.
         seq (runningTasks_delete taskId) (
         seq (emit (TaskCompleted taskId finalStatus successRate successCount totalCount
                      (map summary_of results)))
           (resolve (TaskDone taskId finalStatus results successRate)))))"

text \<open>
  The \<open>try\<close> block, middle part: from \<open>// Update task status\<close> to the end of the loop over
  the results.
\<close>

definition executeTask_dispatch ::
  "env \<Rightarrow> nat \<Rightarrow> string \<Rightarrow> server list \<Rightarrow> options \<Rightarrow> task_return promise" where
  "executeTask_dispatch e taskId command validServers opts =
     await (updateTaskStatus e taskId ''running'' None) (\<lambda>_.
     await (resolve (executeBulkCommand e validServers command opts)) (\<lambda>results.
     and_then (log_results e taskId command results) (\<lambda>_.
     executeTask_finish e taskId results)))"

text \<open>The \<open>try\<close> block of \<open>executeTask\<close>, from its start.\<close>

definition executeTask_try ::
  "env \<Rightarrow> nat \<Rightarrow> string \<Rightarrow> int list \<Rightarrow> options \<Rightarrow> task_return promise" where
  "executeTask_try e taskId command serverIds opts =
     await (Promise_all_getServerById e serverIds) (\<lambda>servers.
     let validServers = map the (filter (\<lambda>server. server \<noteq> None) servers)
     in if length validServers = 0 then throw ''No valid servers found''
        else executeTask_dispatch e taskId command validServers opts)"

text \<open>The \<open>catch\<close> block of \<open>executeTask\<close>.\<close>

definition executeTask_catch :: "env \<Rightarrow> nat \<Rightarrow> string \<Rightarrow> task_return promise" where
  "executeTask_catch e taskId msg =
     await (updateTaskStatus e taskId ''failed'' (Some (error_json msg))) (\<lambda>_.
     seq (runningTasks_delete taskId) (
     seq (emit (TaskFailed taskId msg))
       (resolve (TaskNotDone taskId msg))))"

text \<open>\<open>TaskManager.executeTask\<close>.\<close>

definition executeTask :: "env \<Rightarrow> task_data \<Rightarrow> task_return promise" where
  "executeTask e taskData =
     (let name = td_name taskData;
          command = td_command taskData;
          serverIds = td_serverIds taskData;
          opts = (case td_options taskData of None \<Rightarrow> no_options | Some given \<Rightarrow> given)
      in await (createTask e name command serverIds) (\<lambda>taskId.
         seq (runningTasks_set e taskId) (
         seq (emit (TaskStarted taskId name command (length serverIds))) (
         try_catch (executeTask_try e taskId command serverIds opts)
                   (executeTask_catch e taskId)))))"

text \<open>
  What \<open>getTaskStatus\<close> resolves to for a row: the row's columns (\<open>...task\<close>), then
  \<open>isRunning\<close>, \<open>results\<close> (which takes the place of the column of that name) and
  \<open>serverIds\<close>.
\<close>

record task_view =
  view_row :: task_row
  isRunning :: bool
  view_results :: json
  view_serverIds :: json

text \<open>
  \<open>this.runningTasks.has(taskId)\<close>: the keys of the \<open>Map\<close> are the numbers \<open>executeTask\<close>
  registers (\<open>lastID\<close> of the INSERT), and a \<open>Map\<close> finds a key by identity of value and
  type, so a string is never found.
\<close>

definition runningTasks_has :: "world \<Rightarrow> task_key \<Rightarrow> bool" where
  "runningTasks_has w taskId =
     (case taskId of
        NumberKey n \<Rightarrow> runningTasks w n \<noteq> None
      | StringKey text \<Rightarrow> False)"

text \<open>
  \<open>TaskManager.getTaskStatus\<close>: \<open>Inr None\<close> is \<open>null\<close>. \<open>JSON.parse\<close> throws on text that is
  not JSON.
\<close>

definition getTaskStatus :: "env \<Rightarrow> task_key \<Rightarrow> task_view option promise" where
  "getTaskStatus e taskId =
     await (get_task e taskId) (\<lambda>found w.
       case found of
         None \<Rightarrow> (Inr None, w)
       | Some task \<Rightarrow>
           (let running = runningTasks_has w taskId
            in case (if truthy (task_results task)
                     then JSON_parse e (the (task_results task)) else Inr JNull) of
                 Inl msg \<Rightarrow> (Inl msg, w)
               | Inr results \<Rightarrow>
                   (case JSON_parse e (server_ids task) of
                      Inl msg \<Rightarrow> (Inl msg, w)
                    | Inr serverIds \<Rightarrow>
                        (Inr (Some \<lparr>view_row = task,
                                    isRunning = running,
                                    view_results = results,
                                    view_serverIds = serverIds\<rparr>), w))))"

section \<open>The route \<open>POST /execute\<close>\<close>

text \<open>
  The body of a request, with the fields \<open>executeTaskSchema\<close> names; a field the body
  does not have is \<open>None\<close>.
\<close>

record request_body =
  body_name :: "string option"
  body_command :: "string option"
  body_serverIds :: "int list option"
  body_options :: "options option"

datatype validation_error =
  Required string
  | NotAllowedEmpty string
  | TooLong string
  | TooFewItems string
  | OutOfRange string
  | Unsafe string

text \<open>
  \<open>executeTaskSchema.validate\<close>: the rules the schema declares, applied key by key in the
  order of the schema, stopping at the first violation. A string rule rejects the empty
  string, a number rule a number beyond \<open>Number.MAX_SAFE_INTEGER\<close> in size;
  \<open>maxConcurrent\<close> takes its default 5 when \<open>options\<close> is given without it.
\<close>

definition safe_integer :: "int \<Rightarrow> bool" where
  "safe_integer i = (- 9007199254740991 \<le> i \<and> i \<le> 9007199254740991)"

definition validate_options :: "options \<Rightarrow> validation_error + options" where
  "validate_options given =
     (if (case timeout given of None \<Rightarrow> False | Some t \<Rightarrow> t < 1000 \<or> 3600000 < t)
        then Inl (OutOfRange ''options.timeout'')
      else if (case maxConcurrent given of None \<Rightarrow> False | Some k \<Rightarrow> k < 1 \<or> 20 < k)
        then Inl (OutOfRange ''options.maxConcurrent'')
      else if cwd given = Some [] then Inl (NotAllowedEmpty ''options.cwd'')
      else Inr (given\<lparr>maxConcurrent :=
                  (case maxConcurrent given of None \<Rightarrow> Some 5 | Some k \<Rightarrow> Some k)\<rparr>))"

definition executeTaskSchema_validate :: "request_body \<Rightarrow> validation_error + task_data" where
  "executeTaskSchema_validate body =
     (case body_name body of
        None \<Rightarrow> Inl (Required ''name'')
      | Some name \<Rightarrow>
          if name = [] then Inl (NotAllowedEmpty ''name'')
          else if 255 < length name then Inl (TooLong ''name'')
          else
            (case body_command body of
               None \<Rightarrow> Inl (Required ''command'')
             | Some command \<Rightarrow>
                 if command = [] then Inl (NotAllowedEmpty ''command'')
                 else
                   (case body_serverIds body of
                      None \<Rightarrow> Inl (Required ''serverIds'')
                    | Some serverIds \<Rightarrow>
                        if length serverIds < 1 then Inl (TooFewItems ''serverIds'')
                        else if list_ex (\<lambda>i. \<not> safe_integer i) serverIds
                          then Inl (Unsafe ''serverIds'')
                        else
                          (case body_options body of
                             None \<Rightarrow>
                               Inr \<lparr>td_name = name, td_command = command,
                                    td_serverIds = serverIds, td_options = None\<rparr>
                           | Some given \<Rightarrow>
                               (case validate_options given of
                                  Inl err \<Rightarrow> Inl err
                                | Inr checked \<Rightarrow>
                                    Inr \<lparr>td_name = name, td_command = command,
                                         td_serverIds = serverIds,
                                         td_options = Some checked\<rparr>)))))"

text \<open>
  The responses of the routes: 400 with the validation error, 202 with
  \<open>message: 'Task execution started'\<close>, the task id and \<open>status: 'running'\<close>, 200 with the
  task as \<open>data\<close>, and \<open>{ success: false, error }\<close> with the message of the error caught
  (500) or \<open>'Task not found'\<close> (404).
\<close>

datatype response_body =
  ValidationFailed validation_error
  | ExecutionStarted string nat string
  | ExecutionError string
  | TaskData task_view

datatype http_response = Response nat response_body

text \<open>The handler of \<open>router.post('/execute')\<close>.\<close>

definition post_execute :: "env \<Rightarrow> request_body \<Rightarrow> world \<Rightarrow> http_response \<times> world" where
  "post_execute e body w =
     (case executeTaskSchema_validate body of
        Inl err \<Rightarrow> (Response 400 (ValidationFailed err), w)
      | Inr val \<Rightarrow>
          (case await (executeTask e val) resolve w of
             (Inl msg, w') \<Rightarrow> (Response 500 (ExecutionError msg), w')
           | (Inr result, w') \<Rightarrow>
               (Response 202
                  (ExecutionStarted ''Task execution started'' (return_taskId result) ''running''),
                w')))"

section \<open>The route \<open>GET /:id\<close>\<close>

text \<open>The handler of \<open>router.get('/:id')\<close>; \<open>ident\<close> is \<open>req.params.id\<close>, a string.\<close>

definition get_task_by_id :: "env \<Rightarrow> string \<Rightarrow> world \<Rightarrow> http_response \<times> world" where
  "get_task_by_id e ident w =
     (case await (getTaskStatus e (StringKey ident)) resolve w of
        (Inl msg, w') \<Rightarrow> (Response 500 (ExecutionError msg), w')
      | (Inr None, w') \<Rightarrow> (Response 404 (ExecutionError ''Task not found''), w')
      | (Inr (Some task), w') \<Rightarrow> (Response 200 (TaskData task), w'))"

section \<open>Notions used in the statements\<close>

text \<open>The \<open>options\<close> of a task, \<open>{}\<close> when the task gives none.\<close>

definition options_of :: "task_data \<Rightarrow> options" where
  "options_of taskData = (case td_options taskData of None \<Rightarrow> no_options | Some given \<Rightarrow> given)"

text \<open>The value of \<open>validServers\<close> when every lookup is answered in state \<open>w\<close>.\<close>

definition valid_servers :: "world \<Rightarrow> int list \<Rightarrow> server list" where
  "valid_servers w serverIds =
     map the (filter (\<lambda>server. server \<noteq> None) (map (servers_table w) serverIds))"

text \<open>The results \<open>executeBulkCommand\<close> returns for the task submitted in state \<open>w\<close>.\<close>

definition dispatched_results :: "env \<Rightarrow> task_data \<Rightarrow> world \<Rightarrow> execution_result list" where
  "dispatched_results e taskData w =
     executeBulkCommand e (valid_servers w (td_serverIds taskData)) (td_command taskData)
       (options_of taskData)"

text \<open>The value of \<open>finalStatus\<close> and the \<open>taskCompleted\<close> event for a list of results.\<close>

definition final_status :: "execution_result list \<Rightarrow> string" where
  "final_status results = (if successRate_of results = 100 then ''completed'' else ''partial'')"

definition completed_event :: "nat \<Rightarrow> execution_result list \<Rightarrow> event" where
  "completed_event taskId results =
     TaskCompleted taskId (final_status results) (successRate_of results)
       (length (filter success results)) (length results) (map summary_of results)"

text \<open>
  A snapshot of the registry and the \<open>tasks\<close> table in which the task is in flight: it is
  registered, and its persisted status is \<open>pending\<close> or \<open>running\<close>.
\<close>

definition in_flight :: "nat \<Rightarrow> (nat \<rightharpoonup> running_info) \<times> (nat \<rightharpoonup> task_row) \<Rightarrow> bool" where
  "in_flight taskId snapshot =
     (fst snapshot taskId \<noteq> None \<and>
      (case snd snapshot taskId of
         None \<Rightarrow> False
       | Some row \<Rightarrow> task_status row = ''pending'' \<or> task_status row = ''running''))"

section \<open>A test bed\<close>

text \<open>
  Five servers: \<open>web1\<close> has a key file and a password, \<open>web2\<close> to \<open>web4\<close> a password
  only, \<open>web5\<close> neither. In \<open>lab_env\<close> the key file of \<open>web1\<close> exists, the command exits
  with code 1 on \<open>web2\<close>, the connection to \<open>web3\<close> is refused, \<open>execCommand\<close> rejects on
  \<open>web4\<close>, and the database never fails.
\<close>

definition web1 :: server where
  "web1 = \<lparr>server_id = 1, server_name = ''web1'', server_ip = ''10.0.0.1'',
           server_username = ''admin'', private_key_path = Some ''/keys/web1'',
           password = Some ''secret'', port = None, group_name = ''default'',
           server_status = ''unknown'', last_check = None\<rparr>"

definition web2 :: server where
  "web2 = \<lparr>server_id = 2, server_name = ''web2'', server_ip = ''10.0.0.2'',
           server_username = ''admin'', private_key_path = None,
           password = Some ''secret'', port = Some 2222, group_name = ''default'',
           server_status = ''unknown'', last_check = None\<rparr>"

definition web3 :: server where
  "web3 = \<lparr>server_id = 3, server_name = ''web3'', server_ip = ''10.0.0.3'',
           server_username = ''admin'', private_key_path = None,
           password = Some ''secret'', port = None, group_name = ''default'',
           server_status = ''unknown'', last_check = None\<rparr>"

definition web4 :: server where
  "web4 = \<lparr>server_id = 4, server_name = ''web4'', server_ip = ''10.0.0.4'',
           server_username = ''admin'', private_key_path = None,
           password = Some ''secret'', port = None, group_name = ''default'',
           server_status = ''unknown'', last_check = None\<rparr>"

definition web5 :: server where
  "web5 = \<lparr>server_id = 5, server_name = ''web5'', server_ip = ''10.0.0.5'',
           server_username = ''admin'', private_key_path = None,
           password = None, port = None, group_name = ''default'',
           server_status = ''unknown'', last_check = None\<rparr>"

definition lab_env :: env where
  "lab_env =
     \<lparr>fs_existsSync = (\<lambda>path. path = ''/keys/web1''),
      fs_readFileSync = (\<lambda>path. if path = ''/keys/web1'' then Inr ''KEY'' else Inl ''ENOENT''),
      ssh_connect = (\<lambda>cfg. if cfg_host cfg = ''10.0.0.3'' then Some ''ECONNREFUSED'' else None),
      ssh_execCommand = (\<lambda>cfg command opts.
         if cfg_host cfg = ''10.0.0.2''
         then Inr \<lparr>out_stdout = [], out_stderr = ''boom'', out_code = Some 1\<rparr>
         else if cfg_host cfg = ''10.0.0.4'' then Inl ''Timed out''
         else Inr \<lparr>out_stdout = ''ok'', out_stderr = [], out_code = Some 0\<rparr>),
      exec_millis = (\<lambda>server command. 7),
      db_fault = (\<lambda>n. None),
      now = (\<lambda>n. 1000 + n),
      JSON_stringify = (\<lambda>doc. if doc = JArr [JNum 1, JNum 2] then ''[1,2]'' else ''{}''),
      JSON_parse = (\<lambda>text. if text = ''[1,2]'' then Inr (JArr [JNum 1, JNum 2])
                             else if text = ''{}'' then Inr (JObj [])
                             else Inl ''Unexpected token''),
      sql_integer = (\<lambda>text. if text = ''1'' then Some 1 else None)\<rparr>"

definition lab_world :: world where
  "lab_world =
     \<lparr>servers_table = [1 \<mapsto> web1, 2 \<mapsto> web2, 3 \<mapsto> web3, 4 \<mapsto> web4, 5 \<mapsto> web5],
      tasks_table = Map.empty,
      logs_table = [],
      last_task_id = 0,
      statements = 0,
      runningTasks = Map.empty,
      emitted = [],
      observed = []\<rparr>"

definition two_at_a_time :: options where
  "two_at_a_time = \<lparr>timeout = None, maxConcurrent = Some 2, cwd = None\<rparr>"

definition task_on :: "int list \<Rightarrow> task_data" where
  "task_on serverIds =
     \<lparr>td_name = ''check'', td_command = ''uptime'', td_serverIds = serverIds,
      td_options = Some two_at_a_time\<rparr>"

text \<open>
  A request body for the route, and the state in which task 1 is registered and persisted
  as \<open>running\<close>, as it is while its dispatch is awaited.
\<close>

definition submit_body :: "int list \<Rightarrow> string \<Rightarrow> request_body" where
  "submit_body serverIds command =
     \<lparr>body_name = Some ''check'', body_command = Some command,
      body_serverIds = Some serverIds, body_options = Some two_at_a_time\<rparr>"

definition lab_world_with_task :: world where
  "lab_world_with_task =
     snd (updateTaskStatus lab_env 1 ''running'' None
            (runningTasks_set lab_env 1
               (snd (createTask lab_env ''check'' ''uptime'' [1, 2] lab_world))))"

text \<open>\<open>lab_env\<close> with a database that fails every statement after the first.\<close>

definition faulty_env :: env where
  "faulty_env = lab_env\<lparr>db_fault := (\<lambda>n. if n = 0 then None else Some ''SQLITE_BUSY'')\<rparr>"

lemmas model_defs =
  executeTask_def executeTask_try_def executeTask_dispatch_def executeTask_finish_def
  executeTask_catch_def await_def and_then_def seq_def try_catch_def resolve_def throw_def
  suspend_def db_statement_def createTask_def updateTaskStatus_def addLog_def
  updateServerStatus_def getServerById_def CURRENT_TIMESTAMP_def Date_now_def
  runningTasks_set_def runningTasks_delete_def emit_def progress_event_def summary_of_def
  successRate_of_def aggregate_json_def error_json_def no_options_def

lemmas ssh_defs =
  executeCommand_def createConnection_def batchPromise_def exec_options_of_def truthy_def
  or_default_def server_ref_of_def maxConcurrent_of_def

lemmas lab_defs =
  lab_env_def lab_world_def task_on_def two_at_a_time_def
  web1_def web2_def web3_def web4_def web5_def

section \<open>Remote executor\<close>

text \<open>
  C4. \<open>executeCommand\<close> never throws: it always returns a result, for the server it was
  given. When \<open>createConnection\<close> throws (no authentication method, unreadable key,
  connection or authentication failure) or \<open>execCommand\<close> throws, the result has
  \<open>success = false\<close>, the exit code \<open>-1\<close> and the error message as \<open>stderr\<close>; when the remote
  command runs, \<open>success\<close> says whether its exit code is 0, and the exit code and \<open>stderr\<close>
  are the remote ones.
\<close>

theorem executeCommand_never_raises:
  "\<exists>r. fst (executeCommand e server command opts) = Inr r
       \<and> res_server r = server_ref_of server
       \<and> (\<forall>msg. fst (createConnection e server) = Inl msg \<longrightarrow>
             \<not> success r \<and> code r = Some (- 1) \<and> stderr r = Some msg)
       \<and> (\<forall>session msg. fst (createConnection e server) = Inr session
              \<and> ssh_execCommand e session command (exec_options_of server opts) = Inl msg \<longrightarrow>
             \<not> success r \<and> code r = Some (- 1) \<and> stderr r = Some msg)
       \<and> (\<forall>session out. fst (createConnection e server) = Inr session
              \<and> ssh_execCommand e session command (exec_options_of server opts) = Inr out \<longrightarrow>
             success r = (out_code out = Some 0) \<and> code r = out_code out
             \<and> stderr r = Some (out_stderr out))"
  by (auto simp: executeCommand_def Let_def split: prod.splits sum.splits)

theorem executeCommand_never_raises_witness:
  "(\<exists>r. fst (executeCommand lab_env web3 ''uptime'' no_options) = Inr r
        \<and> \<not> success r \<and> code r = Some (- 1) \<and> stderr r = Some ''ECONNREFUSED'')
   \<and> (\<exists>r. fst (executeCommand lab_env web4 ''uptime'' no_options) = Inr r
        \<and> \<not> success r \<and> code r = Some (- 1) \<and> stderr r = Some ''Timed out'')
   \<and> (\<exists>r. fst (executeCommand lab_env web2 ''uptime'' no_options) = Inr r
        \<and> \<not> success r \<and> code r = Some 1 \<and> stderr r = Some ''boom'')"
proof -
  have refused: "fst (createConnection lab_env web3) = Inl ''ECONNREFUSED''"
    by (simp add: ssh_defs lab_defs)
  have timed_out: "\<exists>session. fst (createConnection lab_env web4) = Inr session
      \<and> ssh_execCommand lab_env session ''uptime'' (exec_options_of web4 no_options) = Inl ''Timed out''"
    by (simp add: ssh_defs lab_defs)
  have exit1: "\<exists>session. fst (createConnection lab_env web2) = Inr session
      \<and> ssh_execCommand lab_env session ''uptime'' (exec_options_of web2 no_options)
          = Inr \<lparr>out_stdout = [], out_stderr = ''boom'', out_code = Some 1\<rparr>"
    by (simp add: ssh_defs lab_defs)
  from refused executeCommand_never_raises [of lab_env web3 "''uptime''" no_options]
  have a: "\<exists>r. fst (executeCommand lab_env web3 ''uptime'' no_options) = Inr r
        \<and> \<not> success r \<and> code r = Some (- 1) \<and> stderr r = Some ''ECONNREFUSED''"
    by blast
  from timed_out executeCommand_never_raises [of lab_env web4 "''uptime''" no_options]
  have b: "\<exists>r. fst (executeCommand lab_env web4 ''uptime'' no_options) = Inr r
        \<and> \<not> success r \<and> code r = Some (- 1) \<and> stderr r = Some ''Timed out''"
    by blast
  from exit1 executeCommand_never_raises [of lab_env web2 "''uptime''" no_options]
  have c: "\<exists>r. fst (executeCommand lab_env web2 ''uptime'' no_options) = Inr r
        \<and> \<not> success r \<and> code r = Some 1 \<and> stderr r = Some ''boom''"
    by fastforce
  from a b c show ?thesis by blast
qed

text \<open>
  C8. When the key file named by the server exists and can be read and a password is set as
  well, the one connection \<open>executeCommand\<close> opens is made with the private key and without
  the password. When the server has no usable key file and no password, \<open>executeCommand\<close>
  makes no call to the SSH library at all and returns \<open>success = false\<close> with the exit code
  \<open>-1\<close> and the message that no authentication method is available.
\<close>

theorem authentication_choice:
  "(truthy (private_key_path server) \<and> fs_existsSync e (the (private_key_path server))
      \<and> fs_readFileSync e (the (private_key_path server)) = Inr key
      \<and> truthy (password server) \<longrightarrow>
      (\<exists>rest. snd (executeCommand e server command opts) =
          Connect \<lparr>cfg_host = server_ip server, cfg_username = server_username server,
                   cfg_port = or_default (port server) 22, cfg_readyTimeout = 10000,
                   cfg_tryKeyboard = True, cfg_privateKey = Some key, cfg_password = None\<rparr>
          # rest
        \<and> (\<forall>cfg. Connect cfg \<notin> set rest)))
   \<and> (\<not> (truthy (private_key_path server) \<and> fs_existsSync e (the (private_key_path server)))
      \<and> \<not> truthy (password server) \<longrightarrow>
      snd (executeCommand e server command opts) = []
      \<and> (\<exists>r. fst (executeCommand e server command opts) = Inr r
            \<and> \<not> success r \<and> code r = Some (- 1)
            \<and> stderr r = Some (''No authentication method available for server ''
                                @ server_name server)))"
  by (auto simp: executeCommand_def createConnection_def Let_def split: prod.splits sum.splits option.splits)

theorem authentication_choice_witness:
  "(\<exists>rest. snd (executeCommand lab_env web1 ''uptime'' no_options) =
      Connect \<lparr>cfg_host = ''10.0.0.1'', cfg_username = ''admin'', cfg_port = 22,
               cfg_readyTimeout = 10000, cfg_tryKeyboard = True,
               cfg_privateKey = Some ''KEY'', cfg_password = None\<rparr> # rest)
   \<and> snd (executeCommand lab_env web5 ''uptime'' no_options) = []
   \<and> (\<exists>r. fst (executeCommand lab_env web5 ''uptime'' no_options) = Inr r
         \<and> \<not> success r \<and> code r = Some (- 1)
         \<and> stderr r = Some ''No authentication method available for server web5'')"
proof -
  have both: "truthy (private_key_path web1) \<and> fs_existsSync lab_env (the (private_key_path web1))
      \<and> fs_readFileSync lab_env (the (private_key_path web1)) = Inr ''KEY''
      \<and> truthy (password web1)"
    by (simp add: ssh_defs lab_defs)
  have neither: "\<not> (truthy (private_key_path web5)
        \<and> fs_existsSync lab_env (the (private_key_path web5)))
      \<and> \<not> truthy (password web5)"
    by (simp add: ssh_defs lab_defs)
  from both authentication_choice [of web1 lab_env "''KEY''" "''uptime''" no_options]
  have a: "\<exists>rest. snd (executeCommand lab_env web1 ''uptime'' no_options) =
      Connect \<lparr>cfg_host = ''10.0.0.1'', cfg_username = ''admin'', cfg_port = 22,
               cfg_readyTimeout = 10000, cfg_tryKeyboard = True,
               cfg_privateKey = Some ''KEY'', cfg_password = None\<rparr> # rest"
    by (auto simp: web1_def or_default_def)
  from neither authentication_choice [of web5 lab_env _ "''uptime''" no_options]
  have b: "snd (executeCommand lab_env web5 ''uptime'' no_options) = []
   \<and> (\<exists>r. fst (executeCommand lab_env web5 ''uptime'' no_options) = Inr r
         \<and> \<not> success r \<and> code r = Some (- 1)
         \<and> stderr r = Some ''No authentication method available for server web5'')"
    by (simp add: web5_def)
  from a b show ?thesis by blast
qed

section \<open>Bulk dispatcher\<close>

lemma batchPromise_server: "res_server (batchPromise e command opts server) = server_ref_of server"
  by (simp add: batchPromise_def executeCommand_def Let_def split: prod.splits sum.splits)

lemma loop_eq:
  "executeBulkCommand_loop e servers command opts i results =
     results @ map (batchPromise e command opts) (drop i servers)"
proof (induction e servers command opts i results rule: executeBulkCommand_loop.induct)
  case (1 e servers command opts i results)
  show ?case
  proof (cases "i < length servers")
    case True
    have split: "take (maxConcurrent_of opts) (drop i servers) @ drop (i + maxConcurrent_of opts) servers
                 = drop i servers"
      by (metis append_take_drop_id drop_drop add.commute)
    have "executeBulkCommand_loop e servers command opts i results =
          executeBulkCommand_loop e servers command opts (i + maxConcurrent_of opts)
            (results @ map (batchPromise e command opts) (take (maxConcurrent_of opts) (drop i servers)))"
      using True by (subst executeBulkCommand_loop.simps) (simp add: Let_def)
    also have "\<dots> = (results @ map (batchPromise e command opts) (take (maxConcurrent_of opts) (drop i servers)))
                  @ map (batchPromise e command opts) (drop (i + maxConcurrent_of opts) servers)"
      using "1.IH" [OF True refl refl] .
    also have "\<dots> = results @ map (batchPromise e command opts) (drop i servers)"
      by (simp flip: map_append add: split)
    finally show ?thesis .
  next
    case False
    then show ?thesis by (subst executeBulkCommand_loop.simps) simp
  qed
qed

lemma bulk_eq: "executeBulkCommand e servers command opts = map (batchPromise e command opts) servers"
  unfolding executeBulkCommand_def loop_eq by simp

lemma concat_batches:
  "concat (executeBulkCommand_batches servers opts i) = drop i servers"
proof (induction servers opts i rule: executeBulkCommand_batches.induct)
  case (1 servers opts i)
  show ?case
  proof (cases "i < length servers")
    case True
    have "take (maxConcurrent_of opts) (drop i servers) @ drop (i + maxConcurrent_of opts) servers
                 = drop i servers"
      by (metis append_take_drop_id drop_drop add.commute)
    with True "1.IH" show ?thesis
      by (subst executeBulkCommand_batches.simps) simp
  next
    case False
    then show ?thesis by (subst executeBulkCommand_batches.simps) simp
  qed
qed

lemma bulk_batches:
  "executeBulkCommand e servers command opts =
     concat (map (map (batchPromise e command opts)) (executeBulkCommand_batches servers opts 0))"
  by (simp add: bulk_eq concat_batches flip: map_concat)

text \<open>
  C5. For every list of servers and every \<open>maxConcurrent\<close> (absent or 0 counts as 5),
  \<open>executeBulkCommand\<close> returns the results of the servers in the order of the list, one
  for each entry: the result at a position is what \<open>executeCommand\<close> with its \<open>.catch\<close>
  handler yields for the server at that position, whatever happens to the other servers
  of its batch or of other batches. So there are as many results as servers, each
  carries the identity of its server, and servers with different ids give results with
  different ids.
\<close>

theorem one_result_per_host:
  "executeBulkCommand e servers command opts = map (batchPromise e command opts) servers
   \<and> length (executeBulkCommand e servers command opts) = length servers
   \<and> map res_server (executeBulkCommand e servers command opts) = map server_ref_of servers
   \<and> (distinct (map server_id servers) \<longrightarrow>
        distinct (map (\<lambda>r. ref_id (res_server r)) (executeBulkCommand e servers command opts)))"
proof -
  have ids: "map (\<lambda>r. ref_id (res_server r)) (executeBulkCommand e servers command opts)
        = map server_id servers"
    by (simp add: bulk_eq batchPromise_server server_ref_of_def)
  have a: "executeBulkCommand e servers command opts = map (batchPromise e command opts) servers"
    by (rule bulk_eq)
  have b: "length (executeBulkCommand e servers command opts) = length servers"
    by (simp add: bulk_eq)
  have c: "map res_server (executeBulkCommand e servers command opts) = map server_ref_of servers"
    by (simp add: bulk_eq batchPromise_server)
  have d: "distinct (map server_id servers) \<longrightarrow>
        distinct (map (\<lambda>r. ref_id (res_server r)) (executeBulkCommand e servers command opts))"
    unfolding ids by simp
  from a b c d show ?thesis
    by (intro conjI)
qed

theorem one_result_per_host_witness:
  "distinct (map server_id [web1, web2, web3])
   \<and> length (executeBulkCommand lab_env [web1, web2, web3] ''uptime'' two_at_a_time) = 3
   \<and> map res_server (executeBulkCommand lab_env [web1, web2, web3] ''uptime'' two_at_a_time)
       = [\<lparr>ref_id = 1, ref_name = ''web1'', ref_ip = ''10.0.0.1''\<rparr>,
          \<lparr>ref_id = 2, ref_name = ''web2'', ref_ip = ''10.0.0.2''\<rparr>,
          \<lparr>ref_id = 3, ref_name = ''web3'', ref_ip = ''10.0.0.3''\<rparr>]
   \<and> distinct (map (\<lambda>r. ref_id (res_server r))
        (executeBulkCommand lab_env [web1, web2, web3] ''uptime'' two_at_a_time))"
proof -
  have d: "distinct (map server_id [web1, web2, web3])"
    by (simp add: lab_defs)
  from one_result_per_host [of lab_env "[web1, web2, web3]" "''uptime''" two_at_a_time] d
  have "length (executeBulkCommand lab_env [web1, web2, web3] ''uptime'' two_at_a_time)
          = length [web1, web2, web3]"
    and "map res_server (executeBulkCommand lab_env [web1, web2, web3] ''uptime'' two_at_a_time)
          = map server_ref_of [web1, web2, web3]"
    and "distinct (map (\<lambda>r. ref_id (res_server r))
          (executeBulkCommand lab_env [web1, web2, web3] ''uptime'' two_at_a_time))"
    by blast+
  with d show ?thesis
    by (simp add: server_ref_of_def web1_def web2_def web3_def)
qed

section \<open>Promises and database statements\<close>

lemma and_thenE:
  assumes "and_then m k w = (r, w')"
  obtains (rejected) msg where "m w = (Inl msg, w')" "r = Inl msg"
        | (resolved) a w1 where "m w = (Inr a, w1)" "k a w1 = (r, w')"
  using assms by (auto simp: and_then_def split: prod.splits sum.splits)

lemma awaitE:
  assumes "await m k w = (r, w')"
  obtains (rejected) msg where "m (suspend w) = (Inl msg, w')" "r = Inl msg"
        | (resolved) a w1 where "m (suspend w) = (Inr a, w1)" "k a w1 = (r, w')"
  using assms unfolding await_def by (erule and_thenE) auto

lemma db_statementE:
  assumes "db_statement e stmt w = (r, w')"
  obtains (fault) msg where "db_fault e (statements w) = Some msg" "r = Inl msg"
            "w' = w\<lparr>statements := Suc (statements w)\<rparr>"
        | (ran) a where "db_fault e (statements w) = None" "r = Inr a"
            "stmt (w\<lparr>statements := Suc (statements w)\<rparr>) = (a, w')"
  using assms by (auto simp: db_statement_def Let_def split: option.splits prod.splits)

lemma suspend_fields [simp]:
  "tasks_table (suspend w) = tasks_table w"
  "runningTasks (suspend w) = runningTasks w"
  "emitted (suspend w) = emitted w"
  "servers_table (suspend w) = servers_table w"
  "statements (suspend w) = statements w"
  "last_task_id (suspend w) = last_task_id w"
  "observed (suspend w) = observed w @ [(runningTasks w, tasks_table w)]"
  by (simp_all add: suspend_def)

lemma addLog_effect:
  assumes "addLog e sid tid command out err t w = (r, w')"
  shows "tasks_table w' = tasks_table w \<and> runningTasks w' = runningTasks w
       \<and> emitted w' = emitted w \<and> observed w' = observed w"
  using assms unfolding addLog_def by (elim db_statementE) auto

lemma updateServerStatus_effect:
  assumes "updateServerStatus e sid st w = (r, w')"
  shows "tasks_table w' = tasks_table w \<and> runningTasks w' = runningTasks w
       \<and> emitted w' = emitted w \<and> observed w' = observed w"
  using assms unfolding updateServerStatus_def
  by (elim db_statementE) (auto split: option.splits)

lemma updateTaskStatus_effect:
  assumes "updateTaskStatus e tid st res w = (r, w')"
  shows "runningTasks w' = runningTasks w \<and> emitted w' = emitted w \<and> observed w' = observed w
       \<and> servers_table w' = servers_table w
       \<and> (case r of
            Inl msg \<Rightarrow> tasks_table w' = tasks_table w
          | Inr u \<Rightarrow> tasks_table w' =
              (case tasks_table w tid of
                 None \<Rightarrow> tasks_table w
               | Some row \<Rightarrow> (tasks_table w)
                   (tid \<mapsto> row\<lparr>task_status := st,
                                task_results := map_option (JSON_stringify e) res,
                                completed_at := Some (now e (Suc (statements w)))\<rparr>)))"
  using assms unfolding updateTaskStatus_def
  by (elim db_statementE) (auto split: option.splits simp: CURRENT_TIMESTAMP_def)

lemma log_results_effect:
  "log_results e taskId command results w = (r, w') \<Longrightarrow>
     tasks_table w' = tasks_table w \<and> runningTasks w' = runningTasks w
     \<and> (\<exists>n\<le>length results. emitted w' = emitted w @ map (progress_event taskId) (take n results)
            \<and> (\<forall>u. r = Inr u \<longrightarrow> n = length results))
     \<and> (\<exists>obs. observed w' = observed w @ obs \<and> set obs \<subseteq> {(runningTasks w, tasks_table w)})"
proof (induction results arbitrary: w)
  case Nil
  then show ?case by (auto simp: resolve_def)
next
  case (Cons result rest)
  from Cons.prems have
    "await (addLog e (ref_id (res_server result)) taskId command
              (stdout result) (stderr result) (executionTime result)) (\<lambda>_.
     await (updateServerStatus e (ref_id (res_server result))
              (if success result then ''online'' else ''error'')) (\<lambda>_.
     seq (emit (progress_event taskId result))
       (log_results e taskId command rest))) w = (r, w')"
    by simp
  then show ?case
  proof (cases rule: awaitE)
    case (rejected msg)
    from addLog_effect [OF rejected(1)] rejected(2) show ?thesis
      by (auto intro!: exI [of _ 0])
  next
    case first: (resolved a w1)
    from first(2) show ?thesis
    proof (cases rule: awaitE)
      case (rejected msg)
      from addLog_effect [OF first(1)] updateServerStatus_effect [OF rejected(1)] rejected(2)
      show ?thesis
        by (auto intro!: exI [of _ 0])
    next
      case (resolved b w2)
      let ?w3 = "emit (progress_event taskId result) w2"
      from resolved(2) have rest: "log_results e taskId command rest ?w3 = (r, w')"
        by (simp add: seq_def)
      have w2: "tasks_table w2 = tasks_table w" "runningTasks w2 = runningTasks w"
        "emitted w2 = emitted w"
        "observed w2 = observed w @ [(runningTasks w, tasks_table w), (runningTasks w, tasks_table w)]"
        using addLog_effect [OF first(1)] updateServerStatus_effect [OF resolved(1)] by auto
      have w3: "tasks_table ?w3 = tasks_table w" "runningTasks ?w3 = runningTasks w"
        "emitted ?w3 = emitted w @ [progress_event taskId result]"
        "observed ?w3 = observed w @ [(runningTasks w, tasks_table w), (runningTasks w, tasks_table w)]"
        using w2 by (simp_all add: emit_def)
      from Cons.IH [OF rest] obtain n obs where ih:
        "tasks_table w' = tasks_table ?w3" "runningTasks w' = runningTasks ?w3"
        "n \<le> length rest" "emitted w' = emitted ?w3 @ map (progress_event taskId) (take n rest)"
        "\<forall>u. r = Inr u \<longrightarrow> n = length rest"
        "observed w' = observed ?w3 @ obs" "set obs \<subseteq> {(runningTasks ?w3, tasks_table ?w3)}"
        by blast
      have "emitted w' = emitted w @ map (progress_event taskId) (take (Suc n) (result # rest))"
        using ih(4) w3 by simp
      then show ?thesis using ih w3
        by (intro conjI exI [of _ "Suc n"]
              exI [of _ "[(runningTasks w, tasks_table w), (runningTasks w, tasks_table w)] @ obs"])
           auto
    qed
  qed
qed

lemma getServerById_effect:
  assumes "getServerById e i w = (r, w')"
  shows "tasks_table w' = tasks_table w \<and> runningTasks w' = runningTasks w
       \<and> emitted w' = emitted w \<and> observed w' = observed w
       \<and> servers_table w' = servers_table w \<and> last_task_id w' = last_task_id w
       \<and> (\<forall>s. r = Inr s \<longrightarrow> s = servers_table w i)"
  using assms unfolding getServerById_def by (elim db_statementE) auto

lemma Promise_all_effect:
  "Promise_all_getServerById e ids w = (r, w') \<Longrightarrow>
     tasks_table w' = tasks_table w \<and> runningTasks w' = runningTasks w
     \<and> emitted w' = emitted w \<and> observed w' = observed w
     \<and> servers_table w' = servers_table w \<and> last_task_id w' = last_task_id w
     \<and> (\<forall>ss. r = Inr ss \<longrightarrow> ss = map (servers_table w) ids)"
proof (induction ids arbitrary: w r w')
  case Nil
  then show ?case by auto
next
  case (Cons i ids)
  obtain first w1 where first: "getServerById e i w = (first, w1)"
    by (cases "getServerById e i w")
  obtain rest w2 where rest: "Promise_all_getServerById e ids w1 = (rest, w2)"
    by (cases "Promise_all_getServerById e ids w1")
  from Cons.prems first rest have r: "w' = w2"
    "r = (case first of Inl msg \<Rightarrow> Inl msg
          | Inr s \<Rightarrow> (case rest of Inl msg \<Rightarrow> Inl msg | Inr ss \<Rightarrow> Inr (s # ss)))"
    by auto
  from getServerById_effect [OF first] Cons.IH [OF rest] r show ?case
    by (auto split: sum.splits)
qed

lemma createTask_effect:
  assumes "createTask e name command serverIds w = (r, w')"
  shows "runningTasks w' = runningTasks w \<and> emitted w' = emitted w \<and> observed w' = observed w
       \<and> servers_table w' = servers_table w
       \<and> (case r of
            Inl msg \<Rightarrow> tasks_table w' = tasks_table w
          | Inr taskId \<Rightarrow> taskId = Suc (last_task_id w)
              \<and> (\<exists>row. tasks_table w' = (tasks_table w)(taskId \<mapsto> row)
                    \<and> task_status row = ''pending'' \<and> completed_at row = None))"
  using assms unfolding createTask_def by (elim db_statementE) (auto simp: Let_def)

lemma executeTask_finish_effect:
  assumes run: "executeTask_finish e tid results w = (r, w')"
    and row: "tasks_table w tid = Some row0"
  shows "observed w' = observed w @ [(runningTasks w, tasks_table w)]"
    and "emitted w' = emitted w @
          (case r of
             Inl msg \<Rightarrow> []
           | Inr ret \<Rightarrow>
               [TaskCompleted tid (if successRate_of results = 100 then ''completed'' else ''partial'')
                  (successRate_of results) (length (filter success results)) (length results)
                  (map summary_of results)])"
    and "\<And>msg. r = Inl msg \<Longrightarrow>
           runningTasks w' = runningTasks w \<and> tasks_table w' = tasks_table w"
    and "\<And>ret. r = Inr ret \<Longrightarrow>
           ret = TaskDone tid (if successRate_of results = 100 then ''completed'' else ''partial'')
                   results (successRate_of results)
           \<and> runningTasks w' = (runningTasks w)(tid := None)
           \<and> tasks_table w' = (tasks_table w)
                (tid \<mapsto> row0\<lparr>task_status :=
                               (if successRate_of results = 100 then ''completed'' else ''partial''),
                             task_results := Some (JSON_stringify e
                               (aggregate_json results (successRate_of results)
                                  (length (filter success results)) (length results))),
                             completed_at := Some (now e (Suc (statements w)))\<rparr>)"
proof -
  let ?st = "if successRate_of results = 100 then ''completed'' else ''partial''"
  let ?agg = "aggregate_json results (successRate_of results)
                (length (filter success results)) (length results)"
  from run have
    "await (updateTaskStatus e tid ?st (Some ?agg)) (\<lambda>_.
       seq (runningTasks_delete tid) (
       seq (emit (TaskCompleted tid ?st (successRate_of results)
                    (length (filter success results)) (length results) (map summary_of results)))
         (resolve (TaskDone tid ?st results (successRate_of results))))) w = (r, w')"
    by (simp add: executeTask_finish_def Let_def)
  then have
    "observed w' = observed w @ [(runningTasks w, tasks_table w)]
     \<and> emitted w' = emitted w @
          (case r of Inl msg \<Rightarrow> []
           | Inr ret \<Rightarrow> [TaskCompleted tid ?st (successRate_of results)
                           (length (filter success results)) (length results) (map summary_of results)])
     \<and> (\<forall>msg. r = Inl msg \<longrightarrow> runningTasks w' = runningTasks w \<and> tasks_table w' = tasks_table w)
     \<and> (\<forall>ret. r = Inr ret \<longrightarrow>
           ret = TaskDone tid ?st results (successRate_of results)
           \<and> runningTasks w' = (runningTasks w)(tid := None)
           \<and> tasks_table w' = (tasks_table w)
                (tid \<mapsto> row0\<lparr>task_status := ?st,
                             task_results := Some (JSON_stringify e ?agg),
                             completed_at := Some (now e (Suc (statements w)))\<rparr>))"
  proof (cases rule: awaitE)
    case (rejected msg)
    from updateTaskStatus_effect [OF rejected(1)] rejected(2) show ?thesis
      by simp
  next
    case (resolved a w1)
    from updateTaskStatus_effect [OF resolved(1)] row
    have w1: "runningTasks w1 = runningTasks w" "emitted w1 = emitted w"
      "observed w1 = observed w @ [(runningTasks w, tasks_table w)]"
      "tasks_table w1 = (tasks_table w)
         (tid \<mapsto> row0\<lparr>task_status := ?st, task_results := Some (JSON_stringify e ?agg),
                      completed_at := Some (now e (Suc (statements w)))\<rparr>)"
      by simp_all
    from resolved(2) have "r = Inr (TaskDone tid ?st results (successRate_of results))"
      and "w' = emit (TaskCompleted tid ?st (successRate_of results)
                    (length (filter success results)) (length results) (map summary_of results))
                 (runningTasks_delete tid w1)"
      by (simp_all add: seq_def resolve_def)
    with w1 show ?thesis
      by (simp add: emit_def runningTasks_delete_def)
  qed
  then show "observed w' = observed w @ [(runningTasks w, tasks_table w)]"
    and "emitted w' = emitted w @
          (case r of
             Inl msg \<Rightarrow> []
           | Inr ret \<Rightarrow>
               [TaskCompleted tid ?st
                  (successRate_of results) (length (filter success results)) (length results)
                  (map summary_of results)])"
    and "\<And>msg. r = Inl msg \<Longrightarrow>
           runningTasks w' = runningTasks w \<and> tasks_table w' = tasks_table w"
    and "\<And>ret. r = Inr ret \<Longrightarrow>
           ret = TaskDone tid ?st results (successRate_of results)
           \<and> runningTasks w' = (runningTasks w)(tid := None)
           \<and> tasks_table w' = (tasks_table w)
                (tid \<mapsto> row0\<lparr>task_status := ?st,
                             task_results := Some (JSON_stringify e ?agg),
                             completed_at := Some (now e (Suc (statements w)))\<rparr>)"
    by blast+
qed

lemma dispatch_effect:
  assumes run: "executeTask_dispatch e tid command vs opts w = (r, w')"
    and reg: "runningTasks w tid \<noteq> None"
    and row: "tasks_table w tid = Some row0" "task_status row0 = ''pending''"
  shows "(\<exists>obs. observed w' = observed w @ obs \<and> list_all (in_flight tid) obs)
     \<and> (\<exists>n\<le>length (executeBulkCommand e vs command opts).
           emitted w' = emitted w
             @ map (progress_event tid) (take n (executeBulkCommand e vs command opts))
             @ (case r of
                  Inl msg \<Rightarrow> []
                | Inr ret \<Rightarrow>
                    [TaskCompleted tid
                       (if successRate_of (executeBulkCommand e vs command opts) = 100
                        then ''completed'' else ''partial'')
                       (successRate_of (executeBulkCommand e vs command opts))
                       (length (filter success (executeBulkCommand e vs command opts)))
                       (length (executeBulkCommand e vs command opts))
                       (map summary_of (executeBulkCommand e vs command opts))]))
     \<and> (\<forall>msg. r = Inl msg \<longrightarrow> in_flight tid (runningTasks w', tasks_table w'))
     \<and> (\<forall>ret. r = Inr ret \<longrightarrow>
           ret = TaskDone tid
                   (if successRate_of (executeBulkCommand e vs command opts) = 100
                    then ''completed'' else ''partial'')
                   (executeBulkCommand e vs command opts)
                   (successRate_of (executeBulkCommand e vs command opts))
           \<and> runningTasks w' tid = None
           \<and> (\<exists>row. tasks_table w' tid = Some row
                \<and> task_status row =
                    (if successRate_of (executeBulkCommand e vs command opts) = 100
                     then ''completed'' else ''partial'')
                \<and> task_results row = Some (JSON_stringify e
                     (aggregate_json (executeBulkCommand e vs command opts)
                        (successRate_of (executeBulkCommand e vs command opts))
                        (length (filter success (executeBulkCommand e vs command opts)))
                        (length (executeBulkCommand e vs command opts))))))"
proof -
  define results where "results = executeBulkCommand e vs command opts"
  let ?s0 = "(runningTasks w, tasks_table w)"
  have s0: "in_flight tid ?s0"
    using reg row by (simp add: in_flight_def)
  from run have
    "await (updateTaskStatus e tid ''running'' None) (\<lambda>_.
       await (resolve results) (\<lambda>results.
       and_then (log_results e tid command results) (\<lambda>_.
       executeTask_finish e tid results))) w = (r, w')"
    by (simp add: executeTask_dispatch_def results_def)
  then have
    "(\<exists>obs. observed w' = observed w @ obs \<and> list_all (in_flight tid) obs)
     \<and> (\<exists>n\<le>length results.
           emitted w' = emitted w @ map (progress_event tid) (take n results)
             @ (case r of
                  Inl msg \<Rightarrow> []
                | Inr ret \<Rightarrow>
                    [TaskCompleted tid
                       (if successRate_of results = 100 then ''completed'' else ''partial'')
                       (successRate_of results) (length (filter success results))
                       (length results) (map summary_of results)]))
     \<and> (\<forall>msg. r = Inl msg \<longrightarrow> in_flight tid (runningTasks w', tasks_table w'))
     \<and> (\<forall>ret. r = Inr ret \<longrightarrow>
           ret = TaskDone tid
                   (if successRate_of results = 100 then ''completed'' else ''partial'')
                   results (successRate_of results)
           \<and> runningTasks w' tid = None
           \<and> (\<exists>row. tasks_table w' tid = Some row
                \<and> task_status row =
                    (if successRate_of results = 100 then ''completed'' else ''partial'')
                \<and> task_results row = Some (JSON_stringify e
                     (aggregate_json results (successRate_of results)
                        (length (filter success results)) (length results)))))"
  proof (cases rule: awaitE)
    case (rejected msg)
    from updateTaskStatus_effect [OF rejected(1)] rejected(2) s0 show ?thesis
      by (auto intro!: exI [of _ 0] simp: in_flight_def)
  next
    case running: (resolved a w1)
    let ?row1 = "row0\<lparr>task_status := ''running'', task_results := map_option (JSON_stringify e) None,
                      completed_at := Some (now e (Suc (statements (suspend w))))\<rparr>"
    from updateTaskStatus_effect [OF running(1)] row
    have w1: "runningTasks w1 = runningTasks w" "emitted w1 = emitted w"
      "observed w1 = observed w @ [?s0]"
      "tasks_table w1 = (tasks_table w)(tid \<mapsto> ?row1)"
      by simp_all
    let ?s1 = "(runningTasks w1, tasks_table w1)"
    have s1: "in_flight tid ?s1"
      using reg w1 by (simp add: in_flight_def)
    from running(2) show ?thesis
    proof (cases rule: awaitE)
      case (rejected msg)
      then show ?thesis by (simp add: resolve_def)
    next
      case bulk: (resolved results' w2)
      then have w2: "results' = results" "w2 = suspend w1"
        by (simp_all add: resolve_def)
      have w2_fields: "runningTasks w2 = runningTasks w1" "tasks_table w2 = tasks_table w1"
        "emitted w2 = emitted w" "observed w2 = observed w @ [?s0, ?s1]"
        using w1 w2 by simp_all
      from bulk(2) w2
      have "and_then (log_results e tid command results) (\<lambda>_.
              executeTask_finish e tid results) w2 = (r, w')"
        by simp
      then show ?thesis
      proof (cases rule: and_thenE)
        case (rejected msg)
        from log_results_effect [OF rejected(1)] obtain n obs where l:
          "tasks_table w' = tasks_table w2" "runningTasks w' = runningTasks w2"
          "n \<le> length results"
          "emitted w' = emitted w2 @ map (progress_event tid) (take n results)"
          "observed w' = observed w2 @ obs" "set obs \<subseteq> {(runningTasks w2, tasks_table w2)}"
          by blast
        have "list_all (in_flight tid) ([?s0, ?s1] @ obs)"
          using s0 s1 l(6) w2_fields by (auto simp: list_all_iff)
        moreover have "observed w' = observed w @ ([?s0, ?s1] @ obs)"
          using l w2_fields by simp
        ultimately have "\<exists>obs. observed w' = observed w @ obs \<and> list_all (in_flight tid) obs"
          by blast
        moreover have "in_flight tid (runningTasks w', tasks_table w')"
          using l w2_fields s1 by simp
        ultimately show ?thesis
          using l w2_fields rejected(2) by auto
      next
        case logged: (resolved u w3)
        from log_results_effect [OF logged(1)] obtain obs where l:
          "tasks_table w3 = tasks_table w2" "runningTasks w3 = runningTasks w2"
          "emitted w3 = emitted w2 @ map (progress_event tid) results"
          "observed w3 = observed w2 @ obs" "set obs \<subseteq> {(runningTasks w2, tasks_table w2)}"
          by auto
        have row3: "tasks_table w3 tid = Some ?row1"
          using l w2_fields w1 by simp
        let ?s3 = "(runningTasks w3, tasks_table w3)"
        have s3: "in_flight tid ?s3"
          using l w2_fields s1 by simp
        note fin = executeTask_finish_effect [OF logged(2) row3]
        have "list_all (in_flight tid) ([?s0, ?s1] @ obs @ [?s3])"
          using s0 s1 s3 l(5) w2_fields by (auto simp: list_all_iff)
        moreover have "observed w' = observed w @ ([?s0, ?s1] @ obs @ [?s3])"
          using fin(1) l w2_fields by simp
        ultimately have O: "\<exists>obs. observed w' = observed w @ obs \<and> list_all (in_flight tid) obs"
          by blast
        have E: "emitted w' = emitted w @ map (progress_event tid) (take (length results) results)
             @ (case r of
                  Inl msg \<Rightarrow> []
                | Inr ret \<Rightarrow>
                    [TaskCompleted tid
                       (if successRate_of results = 100 then ''completed'' else ''partial'')
                       (successRate_of results) (length (filter success results))
                       (length results) (map summary_of results)])"
          using fin(2) l w2_fields by simp
        have Ferr: "\<forall>msg. r = Inl msg \<longrightarrow> in_flight tid (runningTasks w', tasks_table w')"
          using fin(3) s3 by auto
        have Fok: "\<forall>ret. r = Inr ret \<longrightarrow>
           ret = TaskDone tid
                   (if successRate_of results = 100 then ''completed'' else ''partial'')
                   results (successRate_of results)
           \<and> runningTasks w' tid = None
           \<and> (\<exists>row. tasks_table w' tid = Some row
                \<and> task_status row =
                    (if successRate_of results = 100 then ''completed'' else ''partial'')
                \<and> task_results row = Some (JSON_stringify e
                     (aggregate_json results (successRate_of results)
                        (length (filter success results)) (length results))))"
          using fin(4) by auto
        from O E Ferr Fok show ?thesis
          by (intro conjI) (blast intro: order_refl)+
      qed
    qed
  qed
  then show ?thesis unfolding results_def .
qed

lemma try_effect:
  assumes run: "executeTask_try e tid command serverIds opts w = (r, w')"
    and reg: "runningTasks w tid \<noteq> None"
    and row: "tasks_table w tid = Some row0" "task_status row0 = ''pending''"
  defines "results \<equiv> executeBulkCommand e (valid_servers w serverIds) command opts"
  shows "(\<exists>obs. observed w' = observed w @ obs \<and> list_all (in_flight tid) obs)
     \<and> (\<exists>n\<le>length results.
           emitted w' = emitted w @ map (progress_event tid) (take n results)
             @ (case r of Inl msg \<Rightarrow> [] | Inr ret \<Rightarrow> [completed_event tid results]))
     \<and> (\<forall>msg. r = Inl msg \<longrightarrow> in_flight tid (runningTasks w', tasks_table w'))
     \<and> (\<forall>ret. r = Inr ret \<longrightarrow>
           ret = TaskDone tid (final_status results) results (successRate_of results)
           \<and> valid_servers w serverIds \<noteq> []
           \<and> runningTasks w' tid = None
           \<and> (\<exists>row. tasks_table w' tid = Some row
                \<and> task_status row = final_status results
                \<and> task_results row = Some (JSON_stringify e
                     (aggregate_json results (successRate_of results)
                        (length (filter success results)) (length results)))))"
proof -
  let ?s0 = "(runningTasks w, tasks_table w)"
  have s0: "in_flight tid ?s0"
    using reg row by (simp add: in_flight_def)
  from run have
    "await (Promise_all_getServerById e serverIds) (\<lambda>servers.
       let validServers = map the (filter (\<lambda>server. server \<noteq> None) servers)
       in if length validServers = 0 then throw ''No valid servers found''
          else executeTask_dispatch e tid command validServers opts) w = (r, w')"
    by (simp add: executeTask_try_def)
  then show ?thesis
  proof (cases rule: awaitE)
    case (rejected msg)
    from Promise_all_effect [OF rejected(1)] rejected(2) s0 show ?thesis
      by (auto intro!: exI [of _ 0])
  next
    case (resolved servers w1)
    from Promise_all_effect [OF resolved(1)]
    have w1: "tasks_table w1 = tasks_table w" "runningTasks w1 = runningTasks w"
      "emitted w1 = emitted w" "observed w1 = observed w @ [?s0]"
      "servers = map (servers_table w) serverIds"
      by simp_all
    have vs: "map the (filter (\<lambda>server. server \<noteq> None) servers) = valid_servers w serverIds"
      using w1 by (simp add: valid_servers_def)
    from resolved(2) have k:
      "(if length (valid_servers w serverIds) = 0 then throw ''No valid servers found''
        else executeTask_dispatch e tid command (valid_servers w serverIds) opts) w1 = (r, w')"
      unfolding Let_def vs .
    show ?thesis
    proof (cases "valid_servers w serverIds = []")
      case True
      with k have "r = Inl ''No valid servers found''" "w' = w1"
        by (simp_all add: throw_def)
      with w1 s0 show ?thesis
        by (auto intro!: exI [of _ 0])
    next
      case False
      with k
      have d: "executeTask_dispatch e tid command (valid_servers w serverIds) opts w1 = (r, w')"
        by simp
      have reg1: "runningTasks w1 tid \<noteq> None" and row1: "tasks_table w1 tid = Some row0"
        using w1 reg row by simp_all
      from dispatch_effect [OF d reg1 row1 row(2), folded results_def final_status_def,
          folded completed_event_def]
      obtain obs n where de:
        "observed w' = observed w1 @ obs" "list_all (in_flight tid) obs"
        "n \<le> length results"
        "emitted w' = emitted w1 @ map (progress_event tid) (take n results)
             @ (case r of Inl msg \<Rightarrow> [] | Inr ret \<Rightarrow> [completed_event tid results])"
        "\<forall>msg. r = Inl msg \<longrightarrow> in_flight tid (runningTasks w', tasks_table w')"
        "\<forall>ret. r = Inr ret \<longrightarrow>
           ret = TaskDone tid (final_status results) results (successRate_of results)
           \<and> runningTasks w' tid = None
           \<and> (\<exists>row. tasks_table w' tid = Some row
                \<and> task_status row = final_status results
                \<and> task_results row = Some (JSON_stringify e
                     (aggregate_json results (successRate_of results)
                        (length (filter success results)) (length results))))"
        by blast
      have "observed w' = observed w @ (?s0 # obs)" "list_all (in_flight tid) (?s0 # obs)"
        using de w1 s0 by simp_all
      then have O: "\<exists>obs. observed w' = observed w @ obs \<and> list_all (in_flight tid) obs"
        by blast
      from de(3,4) w1 have E: "\<exists>n\<le>length results.
           emitted w' = emitted w @ map (progress_event tid) (take n results)
             @ (case r of Inl msg \<Rightarrow> [] | Inr ret \<Rightarrow> [completed_event tid results])"
        by auto
      from O E de(5,6) False show ?thesis
        by simp
    qed
  qed
qed

lemma catch_effect:
  assumes run: "executeTask_catch e tid msg w = (r, w')"
    and flight: "in_flight tid (runningTasks w, tasks_table w)"
  shows "observed w' = observed w @ [(runningTasks w, tasks_table w)]
     \<and> emitted w' = emitted w @ (case r of Inl msg' \<Rightarrow> [] | Inr ret \<Rightarrow> [TaskFailed tid msg])
     \<and> (\<forall>msg'. r = Inl msg' \<longrightarrow> in_flight tid (runningTasks w', tasks_table w'))
     \<and> (\<forall>ret. r = Inr ret \<longrightarrow>
           ret = TaskNotDone tid msg
           \<and> runningTasks w' tid = None
           \<and> (\<exists>row. tasks_table w' tid = Some row
                \<and> task_status row = ''failed''
                \<and> task_results row = Some (JSON_stringify e (error_json msg))))"
proof -
  from flight obtain row0 where row: "tasks_table w tid = Some row0"
    by (auto simp: in_flight_def split: option.splits)
  from run have
    "await (updateTaskStatus e tid ''failed'' (Some (error_json msg))) (\<lambda>_.
       seq (runningTasks_delete tid) (
       seq (emit (TaskFailed tid msg))
         (resolve (TaskNotDone tid msg)))) w = (r, w')"
    by (simp add: executeTask_catch_def)
  then show ?thesis
  proof (cases rule: awaitE)
    case (rejected msg')
    from updateTaskStatus_effect [OF rejected(1)] rejected(2) flight show ?thesis
      by simp
  next
    case (resolved a w1)
    from updateTaskStatus_effect [OF resolved(1)] row
    have w1: "runningTasks w1 = runningTasks w" "emitted w1 = emitted w"
      "observed w1 = observed w @ [(runningTasks w, tasks_table w)]"
      "tasks_table w1 = (tasks_table w)
         (tid \<mapsto> row0\<lparr>task_status := ''failed'',
                      task_results := Some (JSON_stringify e (error_json msg)),
                      completed_at := Some (now e (Suc (statements w)))\<rparr>)"
      by simp_all
    from resolved(2) have "r = Inr (TaskNotDone tid msg)"
      and "w' = emit (TaskFailed tid msg) (runningTasks_delete tid w1)"
      by (simp_all add: seq_def resolve_def)
    with w1 show ?thesis
      by (simp add: emit_def runningTasks_delete_def)
  qed
qed

lemma valid_servers_cong:
  "servers_table w1 = servers_table w \<Longrightarrow> valid_servers w1 ids = valid_servers w ids"
  by (simp add: valid_servers_def)

lemma executeTask_rejected_at_once:
  assumes run: "executeTask e taskData w = (r, w')"
    and fault: "db_fault e (statements w) = Some msg"
  shows "r = Inl msg \<and> emitted w' = emitted w \<and> runningTasks w' = runningTasks w
       \<and> tasks_table w' = tasks_table w
       \<and> observed w' = observed w @ [(runningTasks w, tasks_table w)]"
proof -
  from run have
    "await (createTask e (td_name taskData) (td_command taskData) (td_serverIds taskData)) (\<lambda>taskId.
       seq (runningTasks_set e taskId) (
       seq (emit (TaskStarted taskId (td_name taskData) (td_command taskData)
                    (length (td_serverIds taskData)))) (
       try_catch (executeTask_try e taskId (td_command taskData) (td_serverIds taskData)
                    (options_of taskData))
                 (executeTask_catch e taskId)))) w = (r, w')"
    by (simp add: executeTask_def Let_def options_of_def)
  then show ?thesis
  proof (cases rule: awaitE)
    case (rejected msg')
    from rejected(1) fault have "msg' = msg"
      unfolding createTask_def by (elim db_statementE) auto
    with createTask_effect [OF rejected(1)] rejected(2) show ?thesis
      by simp
  next
    case (resolved taskId w1)
    from resolved(1) fault show ?thesis
      unfolding createTask_def by (elim db_statementE) auto
  qed
qed

lemma executeTask_effect:
  assumes run: "executeTask e taskData w = (r, w')"
    and nofault: "db_fault e (statements w) = None"
  defines "tid \<equiv> Suc (last_task_id w)"
    and "results \<equiv> dispatched_results e taskData w"
  shows "(\<exists>obs. observed w' = observed w @ (runningTasks w, tasks_table w) # obs
            \<and> list_all (in_flight tid) obs)
     \<and> (\<exists>n\<le>length results.
           emitted w' = emitted w
             @ TaskStarted tid (td_name taskData) (td_command taskData) (length (td_serverIds taskData))
             # map (progress_event tid) (take n results)
             @ (case r of
                  Inl msg \<Rightarrow> []
                | Inr (TaskDone a b c d) \<Rightarrow> [completed_event tid results]
                | Inr (TaskNotDone a msg) \<Rightarrow> [TaskFailed tid msg]))
     \<and> (\<forall>msg. r = Inl msg \<longrightarrow> in_flight tid (runningTasks w', tasks_table w'))
     \<and> (\<forall>ret. r = Inr ret \<longrightarrow>
           runningTasks w' tid = None
           \<and> (\<exists>row. tasks_table w' tid = Some row
                \<and> (case ret of
                      TaskDone taskId status res rate \<Rightarrow>
                        taskId = tid \<and> status = final_status results \<and> res = results
                        \<and> rate = successRate_of results \<and> results \<noteq> []
                        \<and> task_status row = status
                        \<and> task_results row = Some (JSON_stringify e
                             (aggregate_json results (successRate_of results)
                                (length (filter success results)) (length results)))
                    | TaskNotDone taskId msg \<Rightarrow>
                        taskId = tid \<and> task_status row = ''failed''
                        \<and> task_results row = Some (JSON_stringify e (error_json msg)))))"
proof -
  let ?s0 = "(runningTasks w, tasks_table w)"
  let ?started = "TaskStarted tid (td_name taskData) (td_command taskData) (length (td_serverIds taskData))"
  from run have
    "await (createTask e (td_name taskData) (td_command taskData) (td_serverIds taskData)) (\<lambda>taskId.
       seq (runningTasks_set e taskId) (
       seq (emit (TaskStarted taskId (td_name taskData) (td_command taskData)
                    (length (td_serverIds taskData)))) (
       try_catch (executeTask_try e taskId (td_command taskData) (td_serverIds taskData)
                    (options_of taskData))
                 (executeTask_catch e taskId)))) w = (r, w')"
    by (simp add: executeTask_def Let_def options_of_def)
  then show ?thesis
  proof (cases rule: awaitE)
    case (rejected msg)
    from rejected(1) nofault show ?thesis
      unfolding createTask_def by (elim db_statementE) auto
  next
    case (resolved taskId w1)
    from createTask_effect [OF resolved(1)] obtain row0 where w1:
      "runningTasks w1 = runningTasks w" "emitted w1 = emitted w"
      "observed w1 = observed w @ [?s0]" "servers_table w1 = servers_table w"
      "taskId = tid" "tasks_table w1 = (tasks_table w)(tid \<mapsto> row0)"
      "task_status row0 = ''pending''"
      by (auto simp: tid_def)
    define w2 where "w2 = emit ?started (runningTasks_set e tid w1)"
    have w2: "runningTasks w2 tid \<noteq> None" "emitted w2 = emitted w @ [?started]"
      "observed w2 = observed w @ [?s0]" "servers_table w2 = servers_table w"
      "tasks_table w2 tid = Some row0"
      using w1 by (simp_all add: w2_def emit_def runningTasks_set_def)
    have res: "executeBulkCommand e (valid_servers w2 (td_serverIds taskData))
                 (td_command taskData) (options_of taskData) = results"
      using valid_servers_cong [OF w2(4)] by (simp add: results_def dispatched_results_def)
    have vs: "valid_servers w2 (td_serverIds taskData) \<noteq> [] \<Longrightarrow> results \<noteq> []"
      unfolding res [symmetric] bulk_eq by simp
    from resolved(2) w1(5)
    have tc: "try_catch (executeTask_try e tid (td_command taskData) (td_serverIds taskData)
                           (options_of taskData))
                (executeTask_catch e tid) w2 = (r, w')"
      by (simp add: seq_def w2_def)
    obtain r1 w3 where t: "executeTask_try e tid (td_command taskData) (td_serverIds taskData)
                              (options_of taskData) w2 = (r1, w3)"
      by (cases "executeTask_try e tid (td_command taskData) (td_serverIds taskData)
                   (options_of taskData) w2")
    from try_effect [OF t w2(1) w2(5) w1(7), unfolded res] obtain obs n where te:
      "observed w3 = observed w2 @ obs" "list_all (in_flight tid) obs"
      "n \<le> length results"
      "emitted w3 = emitted w2 @ map (progress_event tid) (take n results)
          @ (case r1 of Inl msg \<Rightarrow> [] | Inr ret \<Rightarrow> [completed_event tid results])"
      "\<forall>msg. r1 = Inl msg \<longrightarrow> in_flight tid (runningTasks w3, tasks_table w3)"
      "\<forall>ret. r1 = Inr ret \<longrightarrow>
           ret = TaskDone tid (final_status results) results (successRate_of results)
           \<and> valid_servers w2 (td_serverIds taskData) \<noteq> []
           \<and> runningTasks w3 tid = None
           \<and> (\<exists>row. tasks_table w3 tid = Some row
                \<and> task_status row = final_status results
                \<and> task_results row = Some (JSON_stringify e
                     (aggregate_json results (successRate_of results)
                        (length (filter success results)) (length results))))"
      by blast
    show ?thesis
    proof (cases r1)
      case (Inr ret)
      with tc t have rw: "r = Inr ret" "w' = w3"
        by (simp_all add: try_catch_def)
      from te(6) Inr have ret: "ret = TaskDone tid (final_status results) results (successRate_of results)"
        and vne: "valid_servers w2 (td_serverIds taskData) \<noteq> []"
        and unreg: "runningTasks w3 tid = None"
        and frow: "\<exists>row. tasks_table w3 tid = Some row
                \<and> task_status row = final_status results
                \<and> task_results row = Some (JSON_stringify e
                     (aggregate_json results (successRate_of results)
                        (length (filter success results)) (length results)))"
        by blast+
      have O: "\<exists>obs. observed w' = observed w @ ?s0 # obs \<and> list_all (in_flight tid) obs"
        using te(1,2) w2(3) rw by simp
      have E: "emitted w' = emitted w @ ?started # map (progress_event tid) (take n results)
             @ (case r of
                  Inl msg \<Rightarrow> []
                | Inr (TaskDone a b c d) \<Rightarrow> [completed_event tid results]
                | Inr (TaskNotDone a msg) \<Rightarrow> [TaskFailed tid msg])"
        using te(4) w2(2) rw Inr ret by simp
      have F: "\<forall>ret. r = Inr ret \<longrightarrow>
           runningTasks w' tid = None
           \<and> (\<exists>row. tasks_table w' tid = Some row
                \<and> (case ret of
                      TaskDone taskId status res rate \<Rightarrow>
                        taskId = tid \<and> status = final_status results \<and> res = results
                        \<and> rate = successRate_of results \<and> results \<noteq> []
                        \<and> task_status row = status
                        \<and> task_results row = Some (JSON_stringify e
                             (aggregate_json results (successRate_of results)
                                (length (filter success results)) (length results)))
                    | TaskNotDone taskId msg \<Rightarrow>
                        taskId = tid \<and> task_status row = ''failed''
                        \<and> task_results row = Some (JSON_stringify e (error_json msg))))"
        using rw ret unreg frow vs [OF vne] by simp
      from O E F te(3) rw show ?thesis
        by blast
    next
      case (Inl msg)
      with tc t have c: "executeTask_catch e tid msg w3 = (r, w')"
        by (simp add: try_catch_def)
      from te(5) Inl have fl: "in_flight tid (runningTasks w3, tasks_table w3)"
        by simp
      note ce = catch_effect [OF c fl]
      have "observed w' = observed w @ ?s0 # (obs @ [(runningTasks w3, tasks_table w3)])"
        "list_all (in_flight tid) (obs @ [(runningTasks w3, tasks_table w3)])"
        using ce te w2 fl by simp_all
      then have O: "\<exists>obs. observed w' = observed w @ ?s0 # obs \<and> list_all (in_flight tid) obs"
        by blast
      have E: "emitted w' = emitted w @ ?started # map (progress_event tid) (take n results)
             @ (case r of
                  Inl msg \<Rightarrow> []
                | Inr (TaskDone a b c d) \<Rightarrow> [completed_event tid results]
                | Inr (TaskNotDone a msg) \<Rightarrow> [TaskFailed tid msg])"
        using ce te(4) w2 Inl by (auto split: sum.splits)
      have T: "\<forall>msg. r = Inl msg \<longrightarrow> in_flight tid (runningTasks w', tasks_table w')"
        using ce by blast
      have F: "\<forall>ret. r = Inr ret \<longrightarrow>
           runningTasks w' tid = None
           \<and> (\<exists>row. tasks_table w' tid = Some row
                \<and> (case ret of
                      TaskDone taskId status res rate \<Rightarrow>
                        taskId = tid \<and> status = final_status results \<and> res = results
                        \<and> rate = successRate_of results \<and> results \<noteq> []
                        \<and> task_status row = status
                        \<and> task_results row = Some (JSON_stringify e
                             (aggregate_json results (successRate_of results)
                                (length (filter success results)) (length results)))
                    | TaskNotDone taskId msg \<Rightarrow>
                        taskId = tid \<and> task_status row = ''failed''
                        \<and> task_results row = Some (JSON_stringify e (error_json msg))))"
      proof (intro allI impI)
        fix ret assume "r = Inr ret"
        with ce have "ret = TaskNotDone tid msg" "runningTasks w' tid = None"
          "\<exists>row. tasks_table w' tid = Some row
                \<and> task_status row = ''failed''
                \<and> task_results row = Some (JSON_stringify e (error_json msg))"
          by blast+
        then show "runningTasks w' tid = None
           \<and> (\<exists>row. tasks_table w' tid = Some row
                \<and> (case ret of
                      TaskDone taskId status res rate \<Rightarrow>
                        taskId = tid \<and> status = final_status results \<and> res = results
                        \<and> rate = successRate_of results \<and> results \<noteq> []
                        \<and> task_status row = status
                        \<and> task_results row = Some (JSON_stringify e
                             (aggregate_json results (successRate_of results)
                                (length (filter success results)) (length results)))
                    | TaskNotDone taskId msg \<Rightarrow>
                        taskId = tid \<and> task_status row = ''failed''
                        \<and> task_results row = Some (JSON_stringify e (error_json msg))))"
          by simp
      qed
      from O E T F te(3) show ?thesis
        by blast
    qed
  qed
qed

section \<open>Task orchestrator\<close>

lemma successRate_bounds: "0 \<le> successRate_of results \<and> successRate_of results \<le> 100"
proof -
  define q :: rat where
    "q = of_nat (length (filter success results)) / of_nat (length results)"
  have "length (filter success results) \<le> length results"
    by simp
  then have "(of_nat (length (filter success results)) :: rat) \<le> of_nat (length results)"
    by (simp only: of_nat_le_iff)
  then have "q \<le> 1"
    unfolding q_def by (cases "length results = 0") (simp_all add: divide_le_eq_1)
  moreover have "0 \<le> q"
    unfolding q_def by simp
  moreover have "successRate_of results = q * 100"
    by (simp add: successRate_of_def q_def)
  ultimately show ?thesis
    by simp
qed

lemma executeTask_resolved_no_fault:
  assumes "executeTask e taskData w = (Inr ret, w')"
  shows "db_fault e (statements w) = None"
proof (cases "db_fault e (statements w)")
  case None
  then show ?thesis .
next
  case (Some msg)
  from executeTask_rejected_at_once [OF assms Some] show ?thesis
    by simp
qed

lemma run1_fst: "fst (executeTask lab_env (task_on [1]) lab_world) =
   Inr (TaskDone 1 ''completed''
     [\<lparr>success = True, stdout = Some ''ok'', stderr = Some [], code = Some 0,
       executionTime = Some 7,
       res_server = \<lparr>ref_id = 1, ref_name = ''web1'', ref_ip = ''10.0.0.1''\<rparr>,
       error = None\<rparr>] 100)"
  by (simp add: model_defs lab_defs Let_def bulk_eq ssh_defs)

lemma lab_no_fault: "db_fault lab_env (statements lab_world) = None"
  by (simp add: lab_env_def)

text \<open>
  C1, as the code has it. When \<open>executeTask\<close> returns the results of a task, the results are
  those of the dispatch and there is at least one, the \<open>tasks\<close> row holds the status
  returned and the aggregate, and that status is \<open>completed\<close> exactly when the success rate
  is 100 and \<open>partial\<close> exactly when it is anywhere from 0 up to, but not including, 100.
\<close>

theorem terminal_status_of_aggregate:
  assumes run: "executeTask e taskData w = (Inr (TaskDone taskId status results successRate), w')"
  shows "results = dispatched_results e taskData w \<and> results \<noteq> []
     \<and> successRate = successRate_of results
     \<and> (\<exists>row. tasks_table w' taskId = Some row \<and> task_status row = status
           \<and> task_results row = Some (JSON_stringify e
                (aggregate_json results successRate
                   (length (filter success results)) (length results))))
     \<and> (status = ''completed'' \<longleftrightarrow> successRate = 100)
     \<and> (status = ''partial'' \<longleftrightarrow> 0 \<le> successRate \<and> successRate < 100)"
proof -
  note nofault = executeTask_resolved_no_fault [OF run]
  from executeTask_effect [OF run nofault]
  have "runningTasks w' (Suc (last_task_id w)) = None
     \<and> (\<exists>row. tasks_table w' (Suc (last_task_id w)) = Some row
          \<and> taskId = Suc (last_task_id w)
          \<and> status = final_status (dispatched_results e taskData w)
          \<and> results = dispatched_results e taskData w
          \<and> successRate = successRate_of (dispatched_results e taskData w)
          \<and> dispatched_results e taskData w \<noteq> []
          \<and> task_status row = status
          \<and> task_results row = Some (JSON_stringify e
               (aggregate_json (dispatched_results e taskData w)
                  (successRate_of (dispatched_results e taskData w))
                  (length (filter success (dispatched_results e taskData w)))
                  (length (dispatched_results e taskData w)))))"
    by simp
  then obtain row where f:
    "tasks_table w' (Suc (last_task_id w)) = Some row"
    "taskId = Suc (last_task_id w)" "status = final_status results"
    "results = dispatched_results e taskData w" "successRate = successRate_of results"
    "results \<noteq> []" "task_status row = status"
    "task_results row = Some (JSON_stringify e
       (aggregate_json results (successRate_of results)
          (length (filter success results)) (length results)))"
    by blast
  have st: "(status = ''completed'' \<longleftrightarrow> successRate = 100)"
    "(status = ''partial'' \<longleftrightarrow> 0 \<le> successRate \<and> successRate < 100)"
    using f(3,5) successRate_bounds [of results] by (auto simp: final_status_def)
  from f st show ?thesis
    by simp
qed

theorem terminal_status_of_aggregate_witness:
  "(\<exists>row. tasks_table (snd (executeTask lab_env (task_on [1]) lab_world)) 1 = Some row
        \<and> task_status row = ''completed'')
   \<and> successRate_of
        [\<lparr>success = True, stdout = Some ''ok'', stderr = Some [], code = Some 0,
          executionTime = Some 7,
          res_server = \<lparr>ref_id = 1, ref_name = ''web1'', ref_ip = ''10.0.0.1''\<rparr>,
          error = None\<rparr>] = 100"
proof -
  have run: "executeTask lab_env (task_on [1]) lab_world =
     (Inr (TaskDone 1 ''completed''
        [\<lparr>success = True, stdout = Some ''ok'', stderr = Some [], code = Some 0,
          executionTime = Some 7,
          res_server = \<lparr>ref_id = 1, ref_name = ''web1'', ref_ip = ''10.0.0.1''\<rparr>,
          error = None\<rparr>] 100),
      snd (executeTask lab_env (task_on [1]) lab_world))"
    using run1_fst by (simp add: prod_eq_iff)
  from terminal_status_of_aggregate [OF run]
  have "100 = successRate_of
        [\<lparr>success = True, stdout = Some ''ok'', stderr = Some [], code = Some 0,
          executionTime = Some 7,
          res_server = \<lparr>ref_id = 1, ref_name = ''web1'', ref_ip = ''10.0.0.1''\<rparr>,
          error = None\<rparr>]"
    and "\<exists>row. tasks_table (snd (executeTask lab_env (task_on [1]) lab_world)) 1 = Some row
        \<and> task_status row = ''completed''"
    by blast+
  then show ?thesis
    by (intro conjI) (assumption, rule sym)
qed

text \<open>
  C1 as stated fails where no host succeeds: the task on \<open>web5\<close> alone, which has no
  authentication method, has the success rate 0 and is persisted as \<open>partial\<close>.
\<close>

theorem partial_at_rate_zero:
  "fst (executeTask lab_env (task_on [5]) lab_world) =
     Inr (TaskDone 1 ''partial''
       [\<lparr>success = False, stdout = Some [],
         stderr = Some ''No authentication method available for server web5'',
         code = Some (- 1), executionTime = Some 7,
         res_server = \<lparr>ref_id = 5, ref_name = ''web5'', ref_ip = ''10.0.0.5''\<rparr>,
         error = Some ''No authentication method available for server web5''\<rparr>] 0)
   \<and> map_option task_status
        (tasks_table (snd (executeTask lab_env (task_on [5]) lab_world)) 1) = Some ''partial''"
  by (simp add: model_defs lab_defs Let_def bulk_eq ssh_defs)

lemma faulty_run_throws:
  "fst (executeTask faulty_env (task_on [1]) lab_world) = Inl ''SQLITE_BUSY''"
  by (simp add: faulty_env_def model_defs lab_defs Let_def)

text \<open>
  C6, as the code has it. For a task whose row was created, every state in which
  \<open>executeTask\<close> is suspended after the creation has the task registered with the
  persisted status \<open>pending\<close> or \<open>running\<close>; so has the state left when \<open>executeTask\<close> throws.
  When \<open>executeTask\<close> returns, the task is no longer registered and its persisted status
  is \<open>completed\<close>, \<open>partial\<close> or \<open>failed\<close>: the entry is deleted after the terminal update
  with no suspension in between.
\<close>

theorem registry_while_in_flight:
  assumes run: "executeTask e taskData w = (r, w')"
    and nofault: "db_fault e (statements w) = None"
  shows "(\<exists>obs. observed w' = observed w @ (runningTasks w, tasks_table w) # obs
            \<and> list_all (in_flight (Suc (last_task_id w))) obs)
     \<and> (\<forall>msg. r = Inl msg \<longrightarrow>
           in_flight (Suc (last_task_id w)) (runningTasks w', tasks_table w'))
     \<and> (\<forall>ret. r = Inr ret \<longrightarrow>
           return_taskId ret = Suc (last_task_id w)
           \<and> runningTasks w' (return_taskId ret) = None
           \<and> (\<exists>row. tasks_table w' (return_taskId ret) = Some row
                \<and> (task_status row = ''completed'' \<or> task_status row = ''partial''
                     \<or> task_status row = ''failed'')))"
proof -
  note eff = executeTask_effect [OF run nofault]
  have fin: "\<forall>ret. r = Inr ret \<longrightarrow>
           return_taskId ret = Suc (last_task_id w)
           \<and> runningTasks w' (return_taskId ret) = None
           \<and> (\<exists>row. tasks_table w' (return_taskId ret) = Some row
                \<and> (task_status row = ''completed'' \<or> task_status row = ''partial''
                     \<or> task_status row = ''failed''))"
  proof (intro allI impI)
    fix ret assume r: "r = Inr ret"
    with eff obtain row where f: "runningTasks w' (Suc (last_task_id w)) = None"
      "tasks_table w' (Suc (last_task_id w)) = Some row"
      "case ret of
         TaskDone taskId status res rate \<Rightarrow>
           taskId = Suc (last_task_id w)
           \<and> status = final_status (dispatched_results e taskData w)
           \<and> task_status row = status
       | TaskNotDone taskId msg \<Rightarrow>
           taskId = Suc (last_task_id w) \<and> task_status row = ''failed''"
      by (cases ret) auto
    from f(3) have "return_taskId ret = Suc (last_task_id w)"
      "task_status row = ''completed'' \<or> task_status row = ''partial''
         \<or> task_status row = ''failed''"
      by (cases ret; simp add: final_status_def)+
    with f(1,2) show "return_taskId ret = Suc (last_task_id w)
           \<and> runningTasks w' (return_taskId ret) = None
           \<and> (\<exists>row. tasks_table w' (return_taskId ret) = Some row
                \<and> (task_status row = ''completed'' \<or> task_status row = ''partial''
                     \<or> task_status row = ''failed''))"
      by simp
  qed
  from eff fin show ?thesis
    by blast
qed

theorem registry_while_in_flight_witness:
  "(\<exists>obs. observed (snd (executeTask lab_env (task_on [1]) lab_world))
             = (Map.empty, Map.empty) # obs
          \<and> list_all (in_flight 1) obs)
   \<and> runningTasks (snd (executeTask lab_env (task_on [1]) lab_world)) 1 = None
   \<and> (\<exists>row. tasks_table (snd (executeTask lab_env (task_on [1]) lab_world)) 1 = Some row
         \<and> (task_status row = ''completed'' \<or> task_status row = ''partial''
              \<or> task_status row = ''failed''))
   \<and> in_flight 1 (runningTasks (snd (executeTask faulty_env (task_on [1]) lab_world)),
                   tasks_table (snd (executeTask faulty_env (task_on [1]) lab_world)))"
proof -
  have run: "executeTask lab_env (task_on [1]) lab_world =
     (fst (executeTask lab_env (task_on [1]) lab_world),
      snd (executeTask lab_env (task_on [1]) lab_world))"
    by simp
  have faulty: "executeTask faulty_env (task_on [1]) lab_world =
     (fst (executeTask faulty_env (task_on [1]) lab_world),
      snd (executeTask faulty_env (task_on [1]) lab_world))"
    by simp
  have created: "db_fault faulty_env (statements lab_world) = None"
    by (simp add: faulty_env_def lab_world_def)
  have start: "observed lab_world = []" "runningTasks lab_world = Map.empty"
    "tasks_table lab_world = Map.empty" "last_task_id lab_world = 0"
    by (simp_all add: lab_world_def)
  from registry_while_in_flight [OF run lab_no_fault] run1_fst start
  have a: "(\<exists>obs. observed (snd (executeTask lab_env (task_on [1]) lab_world))
             = (Map.empty, Map.empty) # obs
          \<and> list_all (in_flight 1) obs)
   \<and> runningTasks (snd (executeTask lab_env (task_on [1]) lab_world)) 1 = None
   \<and> (\<exists>row. tasks_table (snd (executeTask lab_env (task_on [1]) lab_world)) 1 = Some row
         \<and> (task_status row = ''completed'' \<or> task_status row = ''partial''
              \<or> task_status row = ''failed''))"
    by simp
  from registry_while_in_flight [OF faulty created] faulty_run_throws start
  have b: "in_flight 1 (runningTasks (snd (executeTask faulty_env (task_on [1]) lab_world)),
                   tasks_table (snd (executeTask faulty_env (task_on [1]) lab_world)))"
    by simp
  from a b show ?thesis
    by simp
qed

text \<open>
  C6 as stated fails between the registration and the update to \<open>running\<close>: while the
  servers are looked up, the task is in the registry and its persisted status is
  \<open>pending\<close>.
\<close>

theorem registered_while_pending:
  "fst (observed (snd (executeTask lab_env (task_on [1]) lab_world)) ! 1) 1 \<noteq> None
   \<and> map_option task_status
        (snd (observed (snd (executeTask lab_env (task_on [1]) lab_world)) ! 1) 1)
       = Some ''pending''"
  by (simp add: model_defs lab_defs Let_def bulk_eq ssh_defs)

lemma lab_batches:
  "executeBulkCommand_batches [web1, web2, web3] two_at_a_time 0 = [[web1, web2], [web3]]"
  by (simp add: executeBulkCommand_batches.simps maxConcurrent_of_def two_at_a_time_def)

lemma run123_resolves:
  "\<exists>ret. fst (executeTask lab_env (task_on [1, 2, 3]) lab_world) = Inr ret"
  by (simp add: model_defs lab_defs Let_def bulk_eq ssh_defs)

text \<open>
  C9. The events \<open>executeTask\<close> emits for a task whose row was created are, in this order:
  \<open>taskStarted\<close>; then \<open>taskProgress\<close> events for an initial part of the hosts taken batch
  after batch, the hosts of one batch in the order of the batch; then at most one terminal
  event, \<open>taskCompleted\<close> or \<open>taskFailed\<close>, which is there whenever \<open>executeTask\<close> returns.
\<close>

theorem event_order:
  assumes run: "executeTask e taskData w = (r, w')"
    and nofault: "db_fault e (statements w) = None"
  shows "\<exists>n terminal.
      emitted w' = emitted w
        @ TaskStarted (Suc (last_task_id w)) (td_name taskData) (td_command taskData)
            (length (td_serverIds taskData))
        # take n (concat (map (map (\<lambda>server. progress_event (Suc (last_task_id w))
                      (batchPromise e (td_command taskData) (options_of taskData) server)))
             (executeBulkCommand_batches (valid_servers w (td_serverIds taskData))
                (options_of taskData) 0)))
        @ terminal
      \<and> (terminal = []
          \<or> terminal = [completed_event (Suc (last_task_id w)) (dispatched_results e taskData w)]
          \<or> (\<exists>msg. terminal = [TaskFailed (Suc (last_task_id w)) msg]))
      \<and> (\<forall>ret. r = Inr ret \<longrightarrow> terminal \<noteq> [])"
proof -
  let ?tid = "Suc (last_task_id w)"
  let ?results = "dispatched_results e taskData w"
  let ?terminal = "case r of
                  Inl msg \<Rightarrow> []
                | Inr (TaskDone a b c d) \<Rightarrow> [completed_event ?tid ?results]
                | Inr (TaskNotDone a msg) \<Rightarrow> [TaskFailed ?tid msg]"
  have progress: "map (progress_event ?tid) ?results =
      concat (map (map (\<lambda>server. progress_event ?tid
                      (batchPromise e (td_command taskData) (options_of taskData) server)))
             (executeBulkCommand_batches (valid_servers w (td_serverIds taskData))
                (options_of taskData) 0))"
    by (simp add: dispatched_results_def bulk_batches map_concat comp_def)
  from executeTask_effect [OF run nofault] obtain n where
    e: "emitted w' = emitted w
          @ TaskStarted ?tid (td_name taskData) (td_command taskData) (length (td_serverIds taskData))
          # map (progress_event ?tid) (take n ?results) @ ?terminal"
    by blast
  have t: "?terminal = [] \<or> ?terminal = [completed_event ?tid ?results]
          \<or> (\<exists>msg. ?terminal = [TaskFailed ?tid msg])"
    by (simp split: sum.splits task_return.splits)
  have nonempty: "\<forall>ret. r = Inr ret \<longrightarrow> ?terminal \<noteq> []"
    by (simp split: sum.splits task_return.splits)
  from e have "emitted w' = emitted w
          @ TaskStarted ?tid (td_name taskData) (td_command taskData) (length (td_serverIds taskData))
          # take n (concat (map (map (\<lambda>server. progress_event ?tid
                      (batchPromise e (td_command taskData) (options_of taskData) server)))
             (executeBulkCommand_batches (valid_servers w (td_serverIds taskData))
                (options_of taskData) 0))) @ ?terminal"
    by (simp only: take_map progress [symmetric])
  with t nonempty show ?thesis
    by blast
qed

theorem event_order_witness:
  "\<exists>n terminal.
      emitted (snd (executeTask lab_env (task_on [1, 2, 3]) lab_world))
        = TaskStarted 1 ''check'' ''uptime'' 3
          # take n (concat (map (map (\<lambda>server. progress_event 1
                        (batchPromise lab_env ''uptime'' two_at_a_time server)))
                     [[web1, web2], [web3]]))
          @ terminal
      \<and> terminal \<noteq> []"
proof -
  have run: "executeTask lab_env (task_on [1, 2, 3]) lab_world =
     (fst (executeTask lab_env (task_on [1, 2, 3]) lab_world),
      snd (executeTask lab_env (task_on [1, 2, 3]) lab_world))"
    by simp
  have start: "emitted lab_world = []" "last_task_id lab_world = 0"
    "td_name (task_on [1, 2, 3]) = ''check''" "td_command (task_on [1, 2, 3]) = ''uptime''"
    "td_serverIds (task_on [1, 2, 3]) = [1, 2, 3]"
    "options_of (task_on [1, 2, 3]) = two_at_a_time"
    by (simp_all add: lab_world_def task_on_def options_of_def)
  have vs: "valid_servers lab_world [1, 2, 3] = [web1, web2, web3]"
    by (simp add: valid_servers_def lab_world_def)
  from event_order [OF run lab_no_fault, unfolded start vs lab_batches]
  obtain n terminal where
    e: "emitted (snd (executeTask lab_env (task_on [1, 2, 3]) lab_world))
        = [] @ TaskStarted (Suc 0) ''check'' ''uptime'' (length [1, 2, 3 :: int])
          # take n (concat (map (map (\<lambda>server. progress_event (Suc 0)
                        (batchPromise lab_env ''uptime'' two_at_a_time server)))
                     [[web1, web2], [web3]]))
          @ terminal"
    and t: "\<forall>ret. fst (executeTask lab_env (task_on [1, 2, 3]) lab_world) = Inr ret
              \<longrightarrow> terminal \<noteq> []"
    by blast
  from t run123_resolves have "terminal \<noteq> []"
    by blast
  moreover from e have
    "emitted (snd (executeTask lab_env (task_on [1, 2, 3]) lab_world))
        = TaskStarted 1 ''check'' ''uptime'' 3
          # take n (concat (map (map (\<lambda>server. progress_event 1
                        (batchPromise lab_env ''uptime'' two_at_a_time server)))
                     [[web1, web2], [web3]]))
          @ terminal"
    by simp
  ultimately show ?thesis
    by blast
qed

text \<open>
  C3. In the run of the task on \<open>web1\<close>, the row read while the dispatch is awaited has the
  status \<open>running\<close> and \<open>completed_at\<close> already set, by the update to \<open>running\<close>; the
  terminal update sets it a second time, to a later time.
\<close>

theorem completed_at_set_when_running:
  "map_option (\<lambda>row. (task_status row, completed_at row))
      (snd (observed (snd (executeTask lab_env (task_on [1]) lab_world)) ! 3) 1)
     = Some (''running'', Some 1003)
   \<and> map_option (\<lambda>row. (task_status row, completed_at row))
      (tasks_table (snd (executeTask lab_env (task_on [1]) lab_world)) 1)
     = Some (''completed'', Some 1006)"
  by (simp add: model_defs lab_defs Let_def bulk_eq ssh_defs)

section \<open>The route and the status query\<close>

lemma post_execute_lab:
  "fst (post_execute lab_env (submit_body [1, 2] ''uptime'') lab_world)
     = Response 202 (ExecutionStarted ''Task execution started'' 1 ''running'')
   \<and> emitted (snd (post_execute lab_env (submit_body [1, 2] ''uptime'') lab_world))
       = [TaskStarted 1 ''check'' ''uptime'' 2,
          TaskProgress 1 1 ''web1'' True (Some ''ok'') (Some []),
          TaskProgress 1 2 ''web2'' False (Some []) (Some ''boom''),
          TaskCompleted 1 ''partial'' 50 1 2
            [\<lparr>sum_serverId = 1, sum_serverName = ''web1'', sum_success = True,
              sum_executionTime = Some 7\<rparr>,
             \<lparr>sum_serverId = 2, sum_serverName = ''web2'', sum_success = False,
              sum_executionTime = Some 7\<rparr>]]"
  by (simp add: post_execute_def executeTaskSchema_validate_def validate_options_def
        safe_integer_def submit_body_def model_defs lab_defs Let_def bulk_eq ssh_defs)

text \<open>
  C2. The handler of \<open>POST /execute\<close> awaits \<open>executeTask\<close>, which awaits the whole
  dispatch. So whenever the handler answers 202 with \<open>message: 'Task execution started'\<close>
  and \<open>status: 'running'\<close>, the task has already left the registry, its persisted status is
  \<open>completed\<close>, \<open>partial\<close> or \<open>failed\<close>, and its terminal event is the last event emitted.
\<close>

theorem answered_after_the_end:
  assumes "post_execute e body w = (Response 202 payload, w')"
  shows "\<exists>taskId. payload = ExecutionStarted ''Task execution started'' taskId ''running''
     \<and> runningTasks w' taskId = None
     \<and> (\<exists>row. tasks_table w' taskId = Some row
           \<and> (task_status row = ''completed'' \<or> task_status row = ''partial''
                \<or> task_status row = ''failed''))
     \<and> (\<exists>earlier final. emitted w' = emitted w @ earlier @ [final]
           \<and> (case final of
                 TaskCompleted tid status rate successCount totalCount summaries \<Rightarrow> tid = taskId
               | TaskFailed tid msg \<Rightarrow> tid = taskId
               | _ \<Rightarrow> False))"
proof -
  from assms obtain val where val: "executeTaskSchema_validate body = Inr val"
    by (cases "executeTaskSchema_validate body") (auto simp: post_execute_def)
  obtain r w1 where aw: "await (executeTask e val) resolve w = (r, w1)"
    by (cases "await (executeTask e val) resolve w")
  from assms val aw obtain result where res: "r = Inr result" "w1 = w'"
    "payload = ExecutionStarted ''Task execution started'' (return_taskId result) ''running''"
    by (cases r) (auto simp: post_execute_def)
  from aw res have run: "executeTask e val (suspend w) = (Inr result, w')"
    by (auto elim!: awaitE simp: resolve_def)
  have nofault: "db_fault e (statements (suspend w)) = None"
    by (rule executeTask_resolved_no_fault [OF run])
  let ?tid = "Suc (last_task_id w)"
  let ?results = "dispatched_results e val (suspend w)"
  from executeTask_effect [OF run nofault] obtain n row where eff:
    "n \<le> length ?results"
    "emitted w' = emitted (suspend w)
       @ TaskStarted ?tid (td_name val) (td_command val) (length (td_serverIds val))
       # map (progress_event ?tid) (take n ?results)
       @ (case result of
            TaskDone a b c d \<Rightarrow> [completed_event ?tid ?results]
          | TaskNotDone a msg \<Rightarrow> [TaskFailed ?tid msg])"
    "runningTasks w' ?tid = None"
    "tasks_table w' ?tid = Some row"
    "case result of
       TaskDone taskId status res rate \<Rightarrow>
         taskId = ?tid \<and> status = final_status ?results \<and> task_status row = status
     | TaskNotDone taskId msg \<Rightarrow> taskId = ?tid \<and> task_status row = ''failed''"
    by (cases result) auto
  from eff(5) have tid: "return_taskId result = ?tid"
    and st: "task_status row = ''completed'' \<or> task_status row = ''partial''
              \<or> task_status row = ''failed''"
    by (cases result; simp add: final_status_def)+
  define earlier where
    "earlier = TaskStarted ?tid (td_name val) (td_command val) (length (td_serverIds val))
                 # map (progress_event ?tid) (take n ?results)"
  define final where
    "final = (case result of
            TaskDone a b c d \<Rightarrow> completed_event ?tid ?results
          | TaskNotDone a msg \<Rightarrow> TaskFailed ?tid msg)"
  have em: "emitted w' = emitted w @ earlier @ [final]"
    using eff(2) by (cases result) (simp_all add: earlier_def final_def)
  have fin: "case final of
                 TaskCompleted t status rate successCount totalCount summaries \<Rightarrow> t = ?tid
               | TaskFailed t msg \<Rightarrow> t = ?tid
               | _ \<Rightarrow> False"
    by (cases result) (simp_all add: final_def completed_event_def)
  from res(3) tid eff(3,4) st em fin show ?thesis
    by (intro exI [of _ ?tid]) auto
qed

theorem answered_after_the_end_witness:
  "fst (post_execute lab_env (submit_body [1, 2] ''uptime'') lab_world)
     = Response 202 (ExecutionStarted ''Task execution started'' 1 ''running'')
   \<and> runningTasks (snd (post_execute lab_env (submit_body [1, 2] ''uptime'') lab_world)) 1 = None
   \<and> (\<exists>row. tasks_table (snd (post_execute lab_env (submit_body [1, 2] ''uptime'') lab_world)) 1
              = Some row
         \<and> (task_status row = ''completed'' \<or> task_status row = ''partial''
              \<or> task_status row = ''failed''))"
proof -
  have run: "post_execute lab_env (submit_body [1, 2] ''uptime'') lab_world =
     (Response 202 (ExecutionStarted ''Task execution started'' 1 ''running''),
      snd (post_execute lab_env (submit_body [1, 2] ''uptime'') lab_world))"
    using post_execute_lab by (simp add: prod_eq_iff)
  from answered_after_the_end [OF run] post_execute_lab show ?thesis
    by auto
qed

text \<open>
  C7. A request to \<open>POST /execute\<close> whose \<open>serverIds\<close> is missing or empty, or whose
  \<open>command\<close> is missing or empty, is answered 400 with the validation error, and the state is
  left as it was: no row is created, nothing is registered, no event is emitted.
\<close>

theorem invalid_submission_rejected:
  assumes "body_serverIds body = None \<or> body_serverIds body = Some []
         \<or> body_command body = None \<or> body_command body = Some []"
  shows "\<exists>err. post_execute e body w = (Response 400 (ValidationFailed err), w)"
  using assms
  by (auto simp: post_execute_def executeTaskSchema_validate_def split: option.splits)

theorem invalid_submission_rejected_witness:
  "(\<exists>err. post_execute lab_env (submit_body [] ''uptime'') lab_world
            = (Response 400 (ValidationFailed err), lab_world))
   \<and> (\<exists>err. post_execute lab_env (submit_body [1, 2] []) lab_world
            = (Response 400 (ValidationFailed err), lab_world))"
proof -
  have a: "body_serverIds (submit_body [] ''uptime'') = Some []"
    by (simp add: submit_body_def)
  have b: "body_command (submit_body [1, 2] []) = Some []"
    by (simp add: submit_body_def)
  from a b invalid_submission_rejected [of "submit_body [] ''uptime''" lab_env lab_world]
    invalid_submission_rejected [of "submit_body [1, 2] []" lab_env lab_world]
  show ?thesis
    by blast
qed

lemma select_task_suspended [simp]:
  "select_task e (w\<lparr>observed := obs, statements := n\<rparr>) taskId = select_task e w taskId"
  by (simp add: select_task_def split: task_key.splits option.splits)

lemma runningTasks_has_suspended [simp]:
  "runningTasks_has (w\<lparr>observed := obs, statements := n\<rparr>) taskId = runningTasks_has w taskId"
  by (simp add: runningTasks_has_def split: task_key.splits)

lemma getTaskStatus_result:
  assumes nofault: "db_fault e (statements w) = None"
  shows "(select_task e w taskId = None \<longrightarrow> fst (getTaskStatus e taskId w) = Inr None)
     \<and> (\<forall>row results serverIds.
           select_task e w taskId = Some row
           \<and> (if truthy (task_results row)
               then JSON_parse e (the (task_results row)) = Inr results
               else results = JNull)
           \<and> JSON_parse e (server_ids row) = Inr serverIds \<longrightarrow>
           fst (getTaskStatus e taskId w) =
             Inr (Some \<lparr>view_row = row,
                        isRunning = runningTasks_has w taskId,
                        view_results = results,
                        view_serverIds = serverIds\<rparr>))"
  using nofault
  by (auto simp: getTaskStatus_def get_task_def await_def and_then_def db_statement_def
        suspend_def Let_def split: if_splits)

lemma get_task_by_id_response:
  "fst (get_task_by_id e ident w) =
     (case fst (getTaskStatus e (StringKey ident) (suspend w)) of
        Inl msg \<Rightarrow> Response 500 (ExecutionError msg)
      | Inr None \<Rightarrow> Response 404 (ExecutionError ''Task not found'')
      | Inr (Some task) \<Rightarrow> Response 200 (TaskData task))"
  by (simp add: get_task_by_id_def await_def and_then_def resolve_def
        split: prod.splits sum.splits option.splits)

lemma string_id_never_running:
  assumes "fst (getTaskStatus e (StringKey ident) w) = Inr (Some task)"
  shows "\<not> isRunning task"
  using assms
  by (auto simp: getTaskStatus_def get_task_def await_def and_then_def db_statement_def
        runningTasks_has_def Let_def split: prod.splits sum.splits option.splits if_splits)

lemma lab_world_with_task_row:
  "tasks_table lab_world_with_task 1 =
      Some \<lparr>task_id = 1, task_name = ''check'', task_command = ''uptime'',
            server_ids = ''[1,2]'', task_status = ''running'', task_results = None,
            created_at = 1001, completed_at = Some 1002\<rparr>"
  by (simp add: lab_world_with_task_def model_defs lab_defs Let_def)

text \<open>
  C10. Task 1 is in the registry and persisted as \<open>running\<close>. For the id \<open>'1'\<close>, the string
  the route \<open>GET /:id\<close> passes, the row is found and returned with \<open>results\<close> and
  \<open>serverIds\<close> parsed, but with \<open>isRunning\<close> false: the registry is keyed by numbers. For
  the number 1 in the same state \<open>getTaskStatus\<close> returns \<open>isRunning\<close> true, and for an id
  with no row it returns \<open>null\<close>, which the route answers with 404.
\<close>

theorem isRunning_false_for_route_id:
  "runningTasks lab_world_with_task 1 \<noteq> None
   \<and> fst (get_task_by_id lab_env ''1'' lab_world_with_task) =
       Response 200 (TaskData
         \<lparr>view_row =
            \<lparr>task_id = 1, task_name = ''check'', task_command = ''uptime'',
             server_ids = ''[1,2]'', task_status = ''running'', task_results = None,
             created_at = 1001, completed_at = Some 1002\<rparr>,
          isRunning = False,
          view_results = JNull,
          view_serverIds = JArr [JNum 1, JNum 2]\<rparr>)
   \<and> fst (getTaskStatus lab_env (NumberKey 1) lab_world_with_task) =
       Inr (Some
         \<lparr>view_row =
            \<lparr>task_id = 1, task_name = ''check'', task_command = ''uptime'',
             server_ids = ''[1,2]'', task_status = ''running'', task_results = None,
             created_at = 1001, completed_at = Some 1002\<rparr>,
          isRunning = True,
          view_results = JNull,
          view_serverIds = JArr [JNum 1, JNum 2]\<rparr>)
   \<and> fst (getTaskStatus lab_env (StringKey ''7'') lab_world_with_task) = Inr None
   \<and> fst (get_task_by_id lab_env ''7'' lab_world_with_task)
       = Response 404 (ExecutionError ''Task not found'')"
proof -
  let ?row = "\<lparr>task_id = 1, task_name = ''check'', task_command = ''uptime'',
             server_ids = ''[1,2]'', task_status = ''running'', task_results = None,
             created_at = 1001, completed_at = Some 1002\<rparr>"
  have registered: "runningTasks lab_world_with_task 1 \<noteq> None"
    by (simp add: lab_world_with_task_def model_defs lab_defs Let_def)
  have nofault: "db_fault lab_env (statements w) = None" for w
    by (simp add: lab_env_def)
  have results: "if truthy (task_results ?row)
      then JSON_parse lab_env (the (task_results ?row)) = Inr JNull else JNull = JNull"
    by (simp add: truthy_def)
  have ids: "JSON_parse lab_env (server_ids ?row) = Inr (JArr [JNum 1, JNum 2])"
    by (simp add: lab_env_def)
  have by_string: "select_task lab_env (suspend lab_world_with_task) (StringKey ''1'') = Some ?row"
    using lab_world_with_task_row by (simp add: select_task_def lab_env_def suspend_def)
  have by_number: "select_task lab_env lab_world_with_task (NumberKey 1) = Some ?row"
    using lab_world_with_task_row by (simp add: select_task_def)
  have absent: "select_task lab_env w (StringKey ''7'') = None" for w
    by (simp add: select_task_def lab_env_def)
  have not_found: "runningTasks_has (suspend lab_world_with_task) (StringKey ''1'') = False"
    by (simp add: runningTasks_has_def)
  have found: "runningTasks_has lab_world_with_task (NumberKey 1) = True"
    using registered by (simp add: runningTasks_has_def)
  have s1: "fst (getTaskStatus lab_env (StringKey ''1'') (suspend lab_world_with_task)) =
       Inr (Some \<lparr>view_row = ?row, isRunning = False, view_results = JNull,
                  view_serverIds = JArr [JNum 1, JNum 2]\<rparr>)"
    using getTaskStatus_result [OF nofault, THEN conjunct2, rule_format,
        OF conjI [OF by_string conjI [OF results ids]]]
    by (simp only: not_found)
  have n1: "fst (getTaskStatus lab_env (NumberKey 1) lab_world_with_task) =
       Inr (Some \<lparr>view_row = ?row, isRunning = True, view_results = JNull,
                  view_serverIds = JArr [JNum 1, JNum 2]\<rparr>)"
    using getTaskStatus_result [OF nofault, THEN conjunct2, rule_format,
        OF conjI [OF by_number conjI [OF results ids]]]
    by (simp only: found)
  have s7: "fst (getTaskStatus lab_env (StringKey ''7'') w) = Inr None" for w
    using getTaskStatus_result [OF nofault, THEN conjunct1, rule_format, OF absent] .
  have route1: "fst (get_task_by_id lab_env ''1'' lab_world_with_task) =
       Response 200 (TaskData \<lparr>view_row = ?row, isRunning = False, view_results = JNull,
                                view_serverIds = JArr [JNum 1, JNum 2]\<rparr>)"
    by (simp only: get_task_by_id_response s1 sum.case option.case)
  have route7: "fst (get_task_by_id lab_env ''7'' lab_world_with_task)
       = Response 404 (ExecutionError ''Task not found'')"
    by (simp only: get_task_by_id_response s7 sum.case option.case)
  from registered route1 n1 s7 [of lab_world_with_task] route7 show ?thesis
    by (intro conjI)
qed

end
